theory Spec2Isabelle
  imports Complex_Main "HOL-Library.Sublist"
begin

section \<open>Python values, exceptions and the object store\<close>

text \<open>
  The environment class \<^verbatim>\<open>NeuroMechFlyMuJoCo\<close> of \<^verbatim>\<open>flygym/envs/nmf_mujoco.py\<close> is
  embedded as pure functions over an explicit state. Python floats are idealised as
  \<^typ>\<open>real\<close>; exceptions are values of \<open>error\<close>; dictionaries are maps from
  strings; the mutable configuration dictionaries live in an explicit store of
  objects, so that the copying done by the constructor is visible.
\<close>

datatype pyval = Num real | Tup "pyval list" | Str string | Ellipsis

datatype error =
    KeyError string
  | ValueError
  | TypeError
  | ZeroDivisionError
  | AttributeError
  | IndexError
  | NotImplementedError
  | UnboundLocalError

type_synonym dict = "string \<rightharpoonup> pyval"

type_synonym addr = nat

text \<open>
  The store holds the dictionary objects: \<open>cells\<close> gives the contents of the object
  at an address, and \<open>next_free\<close> is the first address not yet allocated.
\<close>

record store =
  cells :: "addr \<Rightarrow> dict"
  next_free :: addr

definition sbind :: "'e + 'a \<Rightarrow> ('a \<Rightarrow> 'e + 'b) \<Rightarrow> 'e + 'b" where
  "sbind m f = (case m of Inl e \<Rightarrow> Inl e | Inr v \<Rightarrow> f v)"

text \<open>\<^verbatim>\<open>d[k]\<close>: a missing key raises \<^verbatim>\<open>KeyError\<close>.\<close>

definition lookup :: "dict \<Rightarrow> string \<Rightarrow> error + pyval" where
  "lookup d k = (case d k of None \<Rightarrow> Inl (KeyError k) | Some v \<Rightarrow> Inr v)"

text \<open>
  \<^verbatim>\<open>copy.deepcopy(d)\<close> of a dictionary whose values are immutable (numbers, strings,
  tuples of these, \<^verbatim>\<open>...\<close>): a new dictionary object with the same items.
\<close>

definition deepcopy :: "store \<Rightarrow> addr \<Rightarrow> addr \<times> store" where
  "deepcopy s a =
     (next_free s,
      s\<lparr>cells := (cells s)(next_free s := cells s a), next_free := Suc (next_free s)\<rparr>)"

text \<open>\<^verbatim>\<open>d.update(src)\<close>: the object at \<open>a\<close> is mutated in place; items of \<open>src\<close> win.\<close>

definition dict_update :: "store \<Rightarrow> addr \<Rightarrow> addr \<Rightarrow> store" where
  "dict_update s a src = s\<lparr>cells := (cells s)(a := cells s a ++ cells s src)\<rparr>"

section \<open>Module-level tables\<close>

text \<open>
  The inner dictionaries of \<^verbatim>\<open>_default_terrain_config\<close>, \<^verbatim>\<open>_default_physics_config\<close>
  and \<^verbatim>\<open>_default_render_config\<close> are objects of the store, created when the module is
  imported; the outer tables map a variant name to the address of its dictionary.
\<close>

definition addr_flat :: addr where "addr_flat = 0"
definition addr_gapped :: addr where "addr_gapped = 1"
definition addr_blocks :: addr where "addr_blocks = 2"
definition addr_ball :: addr where "addr_ball = 3"
definition addr_physics :: addr where "addr_physics = 4"
definition addr_saved :: addr where "addr_saved = 5"
definition addr_headless :: addr where "addr_headless = 6"

definition default_terrain_config :: "string \<rightharpoonup> addr" where
  "default_terrain_config =
     [''flat'' \<mapsto> addr_flat, ''gapped'' \<mapsto> addr_gapped,
      ''blocks'' \<mapsto> addr_blocks, ''ball'' \<mapsto> addr_ball]"

definition default_physics_config :: addr where
  "default_physics_config = addr_physics"

definition default_render_config :: "string \<rightharpoonup> addr" where
  "default_render_config = [''saved'' \<mapsto> addr_saved, ''headless'' \<mapsto> addr_headless]"

definition metadata_init_pose :: "string list" where
  "metadata_init_pose = [''default'', ''stretch'']"

definition flat_defaults :: dict where
  "flat_defaults =
     [''size'' \<mapsto> Tup [Num 50000, Num 50000],
      ''friction'' \<mapsto> Tup [Num 1, Num 0.005, Num 0.0001],
      ''fly_pos'' \<mapsto> Tup [Num 0, Num 0, Num 300],
      ''fly_orient'' \<mapsto> Tup [Num 0, Num 1, Num 0, Num 0.1]]"

definition gapped_defaults :: dict where
  "gapped_defaults =
     [''x_range'' \<mapsto> Tup [Num (- 10000), Num 10000],
      ''y_range'' \<mapsto> Tup [Num (- 10000), Num 10000],
      ''friction'' \<mapsto> Tup [Num 1, Num 0.005, Num 0.0001],
      ''gap_width'' \<mapsto> Num 200,
      ''block_width'' \<mapsto> Num 1000,
      ''gap_depth'' \<mapsto> Num 2000,
      ''fly_pos'' \<mapsto> Tup [Num 0, Num 0, Num 600],
      ''fly_orient'' \<mapsto> Tup [Num 0, Num 1, Num 0, Num 0.1]]"

definition blocks_defaults :: dict where
  "blocks_defaults =
     [''x_range'' \<mapsto> Tup [Num (- 10000), Num 10000],
      ''y_range'' \<mapsto> Tup [Num (- 10000), Num 10000],
      ''friction'' \<mapsto> Tup [Num 1, Num 0.005, Num 0.0001],
      ''block_size'' \<mapsto> Num 1000,
      ''height_range'' \<mapsto> Tup [Num 300, Num 300],
      ''rand_seed'' \<mapsto> Num 0,
      ''fly_pos'' \<mapsto> Tup [Num 0, Num 0, Num 600],
      ''fly_orient'' \<mapsto> Tup [Num 0, Num 1, Num 0, Num 0.1]]"

definition ball_defaults :: dict where
  "ball_defaults =
     [''radius'' \<mapsto> Ellipsis,
      ''fly_pos'' \<mapsto> Tup [Num 0, Num 0, Ellipsis],
      ''fly_orient'' \<mapsto> Tup [Num 0, Num 1, Num 0, Ellipsis]]"

definition physics_defaults :: dict where
  "physics_defaults =
     [''joint_stiffness'' \<mapsto> Num 2500,
      ''friction'' \<mapsto> Tup [Num 1, Num 0.005, Num 0.0001],
      ''gravity'' \<mapsto> Tup [Num 0, Num 0, Num (- 981000)]]"

definition saved_defaults :: dict where
  "saved_defaults =
     [''window_size'' \<mapsto> Tup [Num 640, Num 480],
      ''playspeed'' \<mapsto> Num 1,
      ''fps'' \<mapsto> Num 60]"

definition headless_defaults :: dict where
  "headless_defaults = Map.empty"

text \<open>The store right after the module has been imported.\<close>

definition module_store :: store where
  "module_store =
     \<lparr>cells = (\<lambda>_. Map.empty)
        (addr_flat := flat_defaults, addr_gapped := gapped_defaults,
         addr_blocks := blocks_defaults, addr_ball := ball_defaults,
         addr_physics := physics_defaults, addr_saved := saved_defaults,
         addr_headless := headless_defaults),
      next_free = 7\<rparr>"

section \<open>Constructor arguments and configuration assembly\<close>

text \<open>
  The arguments of \<^verbatim>\<open>__init__\<close>. The three configuration arguments are dictionary
  objects of the caller, given by address.
\<close>

record args =
  arg_render_mode :: string
  arg_render_config :: addr
  arg_actuated_joints :: "string list"
  arg_timestep :: real
  arg_output_dir :: "string option"
  arg_terrain :: string
  arg_terrain_config :: addr
  arg_physics_config :: addr
  arg_control :: string
  arg_init_pose :: string

text \<open>
  Lines 189 to 201 of the constructor: each bundle is a deep copy of the default
  dictionary of the chosen variant, updated with the caller's dictionary. The result is
  the three addresses (render, terrain, physics) or the \<^verbatim>\<open>KeyError\<close> of an unknown
  variant, together with the store as it is at that point.
\<close>

definition assemble_configs ::
    "store \<Rightarrow> args \<Rightarrow> (error + addr \<times> addr \<times> addr) \<times> store" where
  "assemble_configs s a =
     (case default_render_config (arg_render_mode a) of
        None \<Rightarrow> (Inl (KeyError (arg_render_mode a)), s)
      | Some rd \<Rightarrow>
          let (rc, s1) = deepcopy s rd;
              s2 = dict_update s1 rc (arg_render_config a)
          in (case default_terrain_config (arg_terrain a) of
                None \<Rightarrow> (Inl (KeyError (arg_terrain a)), s2)
              | Some td \<Rightarrow>
                  let (tc, s3) = deepcopy s2 td;
                      s4 = dict_update s3 tc (arg_terrain_config a);
                      (pc, s5) = deepcopy s4 default_physics_config;
                      s6 = dict_update s5 pc (arg_physics_config a)
                  in (Inr (rc, tc, pc), s6)))"

section \<open>The external collaborators\<close>

text \<open>
  The model description, the pose files, the terrain classes, the physics engine and
  the quaternion conversion are not code of this file. They are parameters of the
  embedding, collected in the record \<open>world\<close>.
\<close>

record actuator =
  act_name :: string
  act_joint :: string

record sensor =
  stype :: string
  sname :: string
  sobjtype :: string
  sobjname :: string

record arena =
  arena_geoms :: "string option list"
  arena_joints :: "string option list"
  arena_scene :: nat

type_synonym frame = "nat list"

text \<open>
  The part of the engine state that the class reads and writes by name, and an opaque
  rest. Derived quantities (sensor readings, images) are read through the engine
  functions of \<open>world\<close>.
\<close>

record physics =
  qpos :: "string \<Rightarrow> real"
  ctrl :: "string \<Rightarrow> real"
  geom_friction :: "string \<Rightarrow> pyval"
  joint_stiffness :: "string \<Rightarrow> pyval"
  joint_damping :: "string \<Rightarrow> pyval"
  actuator_gainprm0 :: "string \<Rightarrow> pyval"
  gravity :: pyval
  opaque :: nat

record world =
  mjcf_actuators :: "actuator list"
  pose_file :: "string \<Rightarrow> (string \<rightharpoonup> real)"
  spawn_entity :: "string \<Rightarrow> pyval list \<Rightarrow> pyval \<Rightarrow> pyval \<Rightarrow> arena"
  from_mjcf_model :: "arena \<Rightarrow> real \<Rightarrow> physics"
  eng_reset :: "physics \<Rightarrow> physics"
  eng_step :: "physics \<Rightarrow> physics"
  eng_sensordata :: "physics \<Rightarrow> sensor \<Rightarrow> real list"
  eng_render :: "physics \<Rightarrow> pyval \<Rightarrow> pyval \<Rightarrow> frame"
  quat_to_euler :: "real list \<Rightarrow> real list"

text \<open>\<^verbatim>\<open>model.find('actuator', name)\<close>: the element of that name, or \<^verbatim>\<open>None\<close>.\<close>

definition find_actuator :: "world \<Rightarrow> string \<Rightarrow> actuator option" where
  "find_actuator w n = List.find (\<lambda>a. act_name a = n) (mjcf_actuators w)"

section \<open>The environment\<close>

record box =
  box_bound :: "real option"
  box_shape :: "nat list"

record observation =
  obs_joints :: "real list list"
  obs_fly :: "real list list"

text \<open>
  The attributes of an instance. \<open>last_render_time = None\<close> stands for \<^verbatim>\<open>-np.inf\<close>;
  \<open>eff_render_interval = None\<close> for an attribute that was never set.
\<close>

record env =
  render_mode :: string
  render_config :: addr
  actuated_joints :: "string list"
  timestep :: real
  output_dir :: "string option"
  terrain :: string
  terrain_config :: addr
  physics_config :: addr
  control :: string
  action_space :: box
  observation_space_joints :: box
  observation_space_fly :: box
  init_pose :: "string \<rightharpoonup> real"
  actuators :: "actuator option list"
  joint_sensors :: "sensor list"
  body_sensors :: "sensor list"
  physics :: physics
  curr_time :: real
  last_render_time :: "real option"
  eff_render_interval :: "real option"
  frames :: "frame list"

subsection \<open>Helpers of the constructor\<close>

definition deg2rad :: "real \<Rightarrow> real" where
  "deg2rad v = v * pi / 180"

text \<open>Lines 225 to 231: the pose check, the pose file, and the filter.\<close>

definition load_init_pose :: "world \<Rightarrow> args \<Rightarrow> error + (string \<rightharpoonup> real)" where
  "load_init_pose w a =
     (if arg_init_pose a \<notin> set metadata_init_pose then Inl ValueError
      else Inr ((\<lambda>k. map_option deg2rad (pose_file w (arg_init_pose a) k))
                  |` set (arg_actuated_joints a)))"

definition actuator_name :: "string \<Rightarrow> string \<Rightarrow> string" where
  "actuator_name control_mode joint = ''actuator_'' @ control_mode @ ''_'' @ joint"

text \<open>Lines 237 to 240: one lookup per joint, in the order of the list.\<close>

definition resolve_actuators :: "world \<Rightarrow> string \<Rightarrow> string list \<Rightarrow> actuator option list" where
  "resolve_actuators w control_mode joints =
     map (\<lambda>joint. find_actuator w (actuator_name control_mode joint)) joints"

text \<open>Lines 243 to 259: five sensors per joint.\<close>

definition sensors_of_joint :: "string \<Rightarrow> sensor list" where
  "sensors_of_joint joint =
     [\<lparr>stype = ''jointpos'', sname = ''jointpos_'' @ joint,
        sobjtype = ''joint'', sobjname = joint\<rparr>,
      \<lparr>stype = ''jointvel'', sname = ''jointvel_'' @ joint,
        sobjtype = ''joint'', sobjname = joint\<rparr>,
      \<lparr>stype = ''actuatorfrc'', sname = ''actuatorfrc_position_'' @ joint,
        sobjtype = ''actuator'', sobjname = ''actuator_position_'' @ joint\<rparr>,
      \<lparr>stype = ''actuatorfrc'', sname = ''actuatorfrc_velocity_'' @ joint,
        sobjtype = ''actuator'', sobjname = ''actuator_velocity_'' @ joint\<rparr>,
      \<lparr>stype = ''actuatorfrc'', sname = ''actuatorfrc_motor_'' @ joint,
        sobjtype = ''actuator'', sobjname = ''actuator_torque_'' @ joint\<rparr>]"

definition add_joint_sensors :: "string list \<Rightarrow> sensor list" where
  "add_joint_sensors joints = concat (map sensors_of_joint joints)"

text \<open>Lines 260 to 269.\<close>

definition add_body_sensors :: "sensor list" where
  "add_body_sensors =
     [\<lparr>stype = ''framepos'', sname = ''thorax_pos'',
        sobjtype = ''body'', sobjname = ''Thorax''\<rparr>,
      \<lparr>stype = ''framelinvel'', sname = ''thorax_linvel'',
        sobjtype = ''body'', sobjname = ''Thorax''\<rparr>,
      \<lparr>stype = ''framequat'', sname = ''thorax_quat'',
        sobjtype = ''body'', sobjname = ''Thorax''\<rparr>,
      \<lparr>stype = ''frameangvel'', sname = ''thorax_angvel'',
        sobjtype = ''body'', sobjname = ''Thorax''\<rparr>]"

text \<open>
  Lines 272 to 308: the terrain branch. Every option is read from the merged
  dictionary in the order of the source; \<^verbatim>\<open>'ball'\<close> raises; with no branch taken the
  name \<^verbatim>\<open>arena\<close> is unbound at line 310.
\<close>

fun lookups :: "dict \<Rightarrow> string list \<Rightarrow> error + pyval list" where
  "lookups d [] = Inr []"
| "lookups d (k # ks) =
     sbind (lookup d k) (\<lambda>v. sbind (lookups d ks) (\<lambda>vs. Inr (v # vs)))"

definition spawn :: "world \<Rightarrow> string \<Rightarrow> dict \<Rightarrow> string list \<Rightarrow> error + arena" where
  "spawn w kind tc ks =
     sbind (lookups tc ks) (\<lambda>vs.
     sbind (lookup tc ''fly_pos'') (\<lambda>rel_pos.
     sbind (lookup tc ''fly_orient'') (\<lambda>rel_angle.
       Inr (spawn_entity w kind vs rel_pos rel_angle))))"

definition build_terrain :: "world \<Rightarrow> string \<Rightarrow> dict \<Rightarrow> error + arena" where
  "build_terrain w terr tc =
     (if terr = ''flat'' then spawn w ''flat'' tc [''size'', ''friction'']
      else if terr = ''gapped'' then
        spawn w ''gapped'' tc
          [''x_range'', ''y_range'', ''gap_width'', ''block_width'', ''gap_depth'',
           ''friction'']
      else if terr = ''blocks'' then
        spawn w ''blocks'' tc
          [''x_range'', ''y_range'', ''block_size'', ''height_range'', ''rand_seed'',
           ''friction'']
      else if terr = ''ball'' then Inl NotImplementedError
      else Inl UnboundLocalError)"

text \<open>\<^verbatim>\<open>a / b\<close> on configuration values.\<close>

fun py_div :: "pyval \<Rightarrow> pyval \<Rightarrow> error + real" where
  "py_div (Num a) (Num b) = (if b = 0 then Inl ZeroDivisionError else Inr (a / b))"
| "py_div _ _ = Inl TypeError"

text \<open>Lines 314 to 316.\<close>

definition render_interval :: "string \<Rightarrow> dict \<Rightarrow> error + real option" where
  "render_interval mode rc =
     (if mode \<noteq> ''headless'' then
        sbind (lookup rc ''playspeed'') (\<lambda>playspeed.
        sbind (lookup rc ''fps'') (\<lambda>fps.
        sbind (py_div playspeed fps) (\<lambda>q. Inr (Some q))))
      else Inr None)"

text \<open>\<^verbatim>\<open>p in s\<close> on strings.\<close>

fun str_contains :: "string \<Rightarrow> string \<Rightarrow> bool" where
  "str_contains p [] = (p = [])"
| "str_contains p (c # cs) = (prefix p (c # cs) \<or> str_contains p cs)"

text \<open>Lines 320 to 323: a geom without a name makes the \<^verbatim>\<open>in\<close> test raise.\<close>

fun set_friction :: "string option list \<Rightarrow> dict \<Rightarrow> physics \<Rightarrow> error + physics" where
  "set_friction [] pc p = Inr p"
| "set_friction (None # gs) pc p = Inl TypeError"
| "set_friction (Some g # gs) pc p =
     (if str_contains ''collision'' g then
        sbind (lookup pc ''friction'') (\<lambda>f.
          set_friction gs pc (p\<lparr>geom_friction := (geom_friction p)(''Animat/'' @ g := f)\<rparr>))
      else set_friction gs pc p)"

text \<open>Lines 325 to 328.\<close>

fun set_stiffness :: "string list \<Rightarrow> dict \<Rightarrow> physics \<Rightarrow> error + physics" where
  "set_stiffness [] pc p = Inr p"
| "set_stiffness (joint # js) pc p =
     sbind (lookup pc ''joint_stiffness'') (\<lambda>k.
       set_stiffness js pc
         (p\<lparr>joint_stiffness := (joint_stiffness p)(''Animat/'' @ joint := k)\<rparr>))"

text \<open>
  \<^verbatim>\<open>_set_compliant_Tarsus\<close>: the loop over the actuators reads \<^verbatim>\<open>actuator.name\<close> of
  every entry, which raises on \<^verbatim>\<open>None\<close>; then the loop over all joints; then the engine
  is reset.
\<close>

fun compliant_actuators :: "actuator option list \<Rightarrow> pyval \<Rightarrow> physics \<Rightarrow> error + physics" where
  "compliant_actuators [] kp p = Inr p"
| "compliant_actuators (None # as) kp p = Inl AttributeError"
| "compliant_actuators (Some a # as) kp p =
     compliant_actuators as kp
       (if str_contains ''position'' (act_name a) \<and> str_contains ''Tarsus'' (act_name a)
           \<and> \<not> str_contains ''Tarsus1'' (act_name a)
        then p\<lparr>actuator_gainprm0 := (actuator_gainprm0 p)(''Animat/'' @ act_name a := kp)\<rparr>
        else p)"

fun compliant_joints :: "string option list \<Rightarrow> pyval \<Rightarrow> pyval \<Rightarrow> physics \<Rightarrow> physics" where
  "compliant_joints [] stiff damping p = p"
| "compliant_joints (None # js) stiff damping p = compliant_joints js stiff damping p"
| "compliant_joints (Some joint # js) stiff damping p =
     compliant_joints js stiff damping
       (if str_contains ''Tarsus'' joint \<and> \<not> str_contains ''Tarsus1'' joint
        then p\<lparr>joint_stiffness := (joint_stiffness p)(''Animat/'' @ joint := stiff),
               joint_damping := (joint_damping p)(''Animat/'' @ joint := damping)\<rparr>
        else p)"

definition set_compliant_Tarsus ::
    "world \<Rightarrow> actuator option list \<Rightarrow> string option list \<Rightarrow> pyval \<Rightarrow> pyval \<Rightarrow> pyval
       \<Rightarrow> physics \<Rightarrow> error + physics" where
  "set_compliant_Tarsus w acts all_joints kp stiff damping p =
     sbind (compliant_actuators acts kp p) (\<lambda>p1.
       Inr (eng_reset w (compliant_joints all_joints stiff damping p1)))"

text \<open>
  \<^verbatim>\<open>_set_init_pose\<close>: entering the reset context resets the engine; the loop runs over
  the indices of the actuated joints and reads the joint of the \<open>i\<close>-th actuator.
\<close>

fun write_pose ::
    "actuator option list \<Rightarrow> nat list \<Rightarrow> string list \<Rightarrow> (string \<rightharpoonup> real) \<Rightarrow> physics
       \<Rightarrow> error + physics" where
  "write_pose acts [] joints pose p = Inr p"
| "write_pose acts (i # is) joints pose p =
     (if i < length acts then
        (case acts ! i of
           None \<Rightarrow> Inl AttributeError
         | Some a \<Rightarrow>
             write_pose acts is joints pose
               (if act_joint a \<in> set joints then
                  (case pose (act_joint a) of
                     Some angle_0 \<Rightarrow> p\<lparr>qpos := (qpos p)(''Animat/'' @ act_joint a := angle_0)\<rparr>
                   | None \<Rightarrow> p)
                else p))
      else Inl IndexError)"

definition set_init_pose :: "world \<Rightarrow> env \<Rightarrow> (string \<rightharpoonup> real) \<Rightarrow> error + env" where
  "set_init_pose w e pose =
     sbind (write_pose (actuators e) [0..<length (actuated_joints e)] (actuated_joints e)
              pose (eng_reset w (physics e)))
       (\<lambda>p. Inr (e\<lparr>physics := p\<rparr>))"

subsection \<open>The constructor\<close>

text \<open>
  Lines 202 to 334: everything after the configuration bundles and before the initial
  pose is applied. The result is the instance with all its attributes set.
\<close>

definition wire ::
    "world \<Rightarrow> store \<Rightarrow> args \<Rightarrow> addr \<Rightarrow> addr \<Rightarrow> addr \<Rightarrow> error + env" where
  "wire w s a rc tc pc =
     (let joints = arg_actuated_joints a;
          num_dofs = length joints
      in
      sbind (load_init_pose w a) (\<lambda>pose.
      sbind (build_terrain w (arg_terrain a) (cells s tc)) (\<lambda>ar.
      sbind (render_interval (arg_render_mode a) (cells s rc)) (\<lambda>interval.
      sbind (set_friction (arena_geoms ar) (cells s pc)
               (from_mjcf_model w ar (arg_timestep a))) (\<lambda>p1.
      sbind (set_stiffness joints (cells s pc) p1) (\<lambda>p2.
      sbind (lookup (cells s pc) ''gravity'') (\<lambda>g.
      sbind (set_compliant_Tarsus w (resolve_actuators w (arg_control a) joints)
               (arena_joints ar) (Num 5) (Num 0) (Num 100) (p2\<lparr>gravity := g\<rparr>)) (\<lambda>p3.
        Inr \<lparr>render_mode = arg_render_mode a,
             render_config = rc,
             actuated_joints = joints,
             timestep = arg_timestep a,
             output_dir = arg_output_dir a,
             terrain = arg_terrain a,
             terrain_config = tc,
             physics_config = pc,
             control = arg_control a,
             action_space =
               \<lparr>box_bound = (if arg_control a = ''position'' then Some pi else None),
                box_shape = [num_dofs]\<rparr>,
             observation_space_joints = \<lparr>box_bound = None, box_shape = [3, num_dofs]\<rparr>,
             observation_space_fly = \<lparr>box_bound = None, box_shape = [4, 3]\<rparr>,
             init_pose = pose,
             actuators = resolve_actuators w (arg_control a) joints,
             joint_sensors = add_joint_sensors joints,
             body_sensors = add_body_sensors,
             physics = p3,
             curr_time = 0,
             last_render_time = None,
             eff_render_interval = interval,
             frames = []\<rparr>))))))))"

text \<open>Line 336: \<^verbatim>\<open>self._set_init_pose(self.init_pose)\<close>.\<close>

definition init_rest ::
    "world \<Rightarrow> store \<Rightarrow> args \<Rightarrow> addr \<Rightarrow> addr \<Rightarrow> addr \<Rightarrow> error + env" where
  "init_rest w s a rc tc pc =
     sbind (wire w s a rc tc pc) (\<lambda>e. set_init_pose w e (init_pose e))"

text \<open>
  The constructor. Creating the output directory is an effect on the file system and
  is not part of the state kept here.
\<close>

definition init :: "world \<Rightarrow> store \<Rightarrow> args \<Rightarrow> (error + env) \<times> store" where
  "init w s a =
     (case assemble_configs s a of
        (Inl e, s') \<Rightarrow> (Inl e, s')
      | (Inr (rc, tc, pc), s') \<Rightarrow> (init_rest w s' a rc tc pc, s'))"

subsection \<open>Observation\<close>

text \<open>\<^verbatim>\<open>xs[i]\<close> on a list.\<close>

definition py_nth :: "'a list \<Rightarrow> nat \<Rightarrow> error + 'a" where
  "py_nth xs i = (if i < length xs then Inr (xs ! i) else Inl IndexError)"

text \<open>\<^verbatim>\<open>m[r, c] = v\<close> on a matrix stored as a list of rows.\<close>

definition set2 :: "real list list \<Rightarrow> nat \<Rightarrow> nat \<Rightarrow> real \<Rightarrow> real list list" where
  "set2 m r c v = m[r := (m ! r)[c := v]]"

text \<open>
  The loop of \<^verbatim>\<open>_get_observation\<close> (lines 443 to 448) over the column indices. The
  slice \<^verbatim>\<open>data[base_idx:base_idx + 2]\<close> is assigned to two cells: a slice of one element
  is broadcast, an empty one raises. The sum runs over whatever the second slice holds.
\<close>

fun fill_joint_obs :: "real list \<Rightarrow> nat list \<Rightarrow> real list list \<Rightarrow> error + real list list" where
  "fill_joint_obs joint_sensordata [] joint_obs = Inr joint_obs"
| "fill_joint_obs joint_sensordata (i # is) joint_obs =
     (let base_idx = i * 5;
          torque = sum_list (take 3 (drop (base_idx + 2) joint_sensordata))
      in (case take 2 (drop base_idx joint_sensordata) of
            [] \<Rightarrow> Inl ValueError
          | [x] \<Rightarrow>
              fill_joint_obs joint_sensordata is
                (set2 (set2 (set2 joint_obs 0 i x) 1 i x) 2 i torque)
          | x # y # _ \<Rightarrow>
              fill_joint_obs joint_sensordata is
                (set2 (set2 (set2 joint_obs 0 i x) 1 i y) 2 i torque)))"

text \<open>\<^verbatim>\<open>np.array\<close> of a list of rows: rows of different lengths are refused.\<close>

definition np_array :: "real list list \<Rightarrow> error + real list list" where
  "np_array rows =
     (if \<forall>r \<in> set rows. length r = length (hd rows) then Inr rows else Inl ValueError)"

definition get_observation :: "world \<Rightarrow> env \<Rightarrow> error + observation" where
  "get_observation w e =
     (let n = length (actuated_joints e);
          joint_sensordata = concat (map (eng_sensordata w (physics e)) (joint_sensors e))
      in
      sbind (fill_joint_obs joint_sensordata [0..<n] (replicate 3 (replicate n 0))) (\<lambda>m.
      let joint_obs = m[2 := map (\<lambda>x. x * (1 / 1000000000)) (m ! 2)] in
      sbind (py_nth (body_sensors e) 0) (\<lambda>s0.
      sbind (py_nth (body_sensors e) 1) (\<lambda>s1.
      sbind (py_nth (body_sensors e) 2) (\<lambda>s2.
      let cart_pos = eng_sensordata w (physics e) s0;
          cart_vel = eng_sensordata w (physics e) s1;
          quat = eng_sensordata w (physics e) s2;
          ang_pos = quat_to_euler w quat
      in
      sbind (py_nth ang_pos 0) (\<lambda>roll.
      sbind (py_nth (body_sensors e) 3) (\<lambda>s3.
      let ang_vel = eng_sensordata w (physics e) s3 in
      sbind (np_array [cart_pos, cart_vel, ang_pos[0 := roll * (- 1)], ang_vel]) (\<lambda>fly_pos.
        Inr \<lparr>obs_joints = joint_obs, obs_fly = fly_pos\<rparr>))))))))"

definition get_info :: "string \<rightharpoonup> pyval" where
  "get_info = Map.empty"

subsection \<open>reset, step, render\<close>

definition reset :: "world \<Rightarrow> env \<Rightarrow> error + env \<times> observation \<times> (string \<rightharpoonup> pyval)" where
  "reset w e =
     (let e1 = e\<lparr>physics := eng_reset w (physics e), curr_time := 0\<rparr> in
      sbind (set_init_pose w e1 (init_pose e1)) (\<lambda>e2.
      let e3 = e2\<lparr>frames := [], last_render_time := None\<rparr> in
      sbind (get_observation w e3) (\<lambda>ob. Inr (e3, ob, get_info))))"

text \<open>
  \<^verbatim>\<open>physics.bind(actuators).ctrl = values\<close>: the \<open>i\<close>-th value goes to the \<open>i\<close>-th bound
  actuator; a single value is broadcast; any other length mismatch is refused, and so
  is a binding that holds \<^verbatim>\<open>None\<close>.
\<close>

fun write_ctrl :: "actuator list \<Rightarrow> real list \<Rightarrow> physics \<Rightarrow> physics" where
  "write_ctrl (a # as) (x # xs) p = write_ctrl as xs (p\<lparr>ctrl := (ctrl p)(act_name a := x)\<rparr>)"
| "write_ctrl _ _ p = p"

definition bind_ctrl :: "actuator option list \<Rightarrow> real list \<Rightarrow> physics \<Rightarrow> error + physics" where
  "bind_ctrl acts values p =
     (if None \<in> set acts then Inl TypeError
      else if length values = length acts then Inr (write_ctrl (map the acts) values p)
      else if length values = 1 then
        Inr (write_ctrl (map the acts) (replicate (length acts) (hd values)) p)
      else Inl ValueError)"

definition step ::
    "world \<Rightarrow> env \<Rightarrow> (string \<rightharpoonup> real list)
       \<Rightarrow> error + env \<times> observation \<times> (string \<rightharpoonup> pyval)" where
  "step w e action =
     (case action ''joints'' of
        None \<Rightarrow> Inl (KeyError ''joints'')
      | Some values \<Rightarrow>
          sbind (bind_ctrl (actuators e) values (physics e)) (\<lambda>p.
          let e1 = e\<lparr>physics := eng_step w p, curr_time := curr_time e + timestep e\<rparr> in
          sbind (get_observation w e1) (\<lambda>ob. Inr (e1, ob, get_info))))"

text \<open>\<^verbatim>\<open>step\<close> called once per action of a list, stopping at the first exception.\<close>

fun steps :: "world \<Rightarrow> env \<Rightarrow> (string \<rightharpoonup> real list) list \<Rightarrow> error + env" where
  "steps w e [] = Inr e"
| "steps w e (action # rest) = sbind (step w e action) (\<lambda>(e1, ob, info). steps w e1 rest)"

text \<open>
  \<^verbatim>\<open>render\<close>. The comparison with \<^verbatim>\<open>-np.inf\<close> as last render time is false. Unpacking
  \<^verbatim>\<open>window_size\<close> needs a pair.
\<close>

definition render :: "world \<Rightarrow> store \<Rightarrow> env \<Rightarrow> error + env" where
  "render w s e =
     (if render_mode e = ''headless'' then Inr e
      else
        (case eff_render_interval e of
           None \<Rightarrow> Inl AttributeError
         | Some interval \<Rightarrow>
             if (case last_render_time e of
                   None \<Rightarrow> False
                 | Some t \<Rightarrow> curr_time e < t + interval)
             then Inr e
             else if render_mode e = ''saved'' then
               sbind (lookup (cells s (render_config e)) ''window_size'') (\<lambda>ws.
                 (case ws of
                    Tup [width, height] \<Rightarrow>
                      Inr (e\<lparr>frames := frames e @ [eng_render w (physics e) width height],
                             last_render_time := Some (curr_time e)\<rparr>)
                  | Tup _ \<Rightarrow> Inl ValueError
                  | _ \<Rightarrow> Inl TypeError))
             else Inl NotImplementedError))"

subsection \<open>save_video, close\<close>




section \<open>Vocabulary of the properties\<close>

definition raises :: "error + 'a \<Rightarrow> bool" where
  "raises r = (case r of Inl _ \<Rightarrow> True | Inr _ \<Rightarrow> False)"

text \<open>\<^verbatim>\<open>_metadata['control']\<close>, line 136.\<close>

definition metadata_control :: "string list" where
  "metadata_control = [''position'', ''velocity'', ''torque'']"

text \<open>
  The attributes that the constructor derives from the list of actuated joints and that
  no method changes afterwards: every actuator was found, and the sensors are the ones
  added for the joints, in their order.
\<close>

definition wired :: "world \<Rightarrow> env \<Rightarrow> bool" where
  "wired w e =
     (actuators e = resolve_actuators w (control e) (actuated_joints e)
      \<and> None \<notin> set (actuators e)
      \<and> joint_sensors e = add_joint_sensors (actuated_joints e)
      \<and> body_sensors e = add_body_sensors)"

text \<open>
  The naming convention of the model file: the \<open>i\<close>-th actuator exists and drives the
  \<open>i\<close>-th actuated joint.
\<close>

definition follows_convention :: "env \<Rightarrow> bool" where
  "follows_convention e =
     (map (map_option act_joint) (actuators e) = map Some (actuated_joints e))"

text \<open>
  The sizes of what the engine and the quaternion conversion return: one number for a
  joint or actuator sensor, three for a frame position or velocity, four for a frame
  quaternion, three Euler angles.
\<close>

definition engine_shapes :: "world \<Rightarrow> bool" where
  "engine_shapes w =
     ((\<forall>p sn. length (eng_sensordata w p sn) =
          (if stype sn = ''framequat'' then 4
           else if stype sn = ''framepos'' \<or> stype sn = ''framelinvel''
                   \<or> stype sn = ''frameangvel'' then 3
           else 1))
      \<and> (\<forall>q. length (quat_to_euler w q) = 3))"

text \<open>The caller's dictionaries and the module's defaults are objects that exist.\<close>

definition args_allocated :: "store \<Rightarrow> args \<Rightarrow> bool" where
  "args_allocated s a =
     (arg_render_config a < next_free s \<and> arg_terrain_config a < next_free s
      \<and> arg_physics_config a < next_free s \<and> 7 \<le> next_free s)"

text \<open>
  What an observation of the instance \<open>e\<close> must look like: three rows of one entry per
  actuated joint, column \<open>i\<close> read from the five sensors of the \<open>i\<close>-th joint, and four
  rows of three entries for the body.
\<close>

definition joint_column :: "world \<Rightarrow> env \<Rightarrow> observation \<Rightarrow> nat \<Rightarrow> bool" where
  "joint_column w e ob i =
     (let sens = sensors_of_joint (actuated_joints e ! i);
          rd = eng_sensordata w (physics e)
      in rd (sens ! 0) = [obs_joints ob ! 0 ! i]
         \<and> rd (sens ! 1) = [obs_joints ob ! 1 ! i]
         \<and> obs_joints ob ! 2 ! i =
             sum_list (rd (sens ! 2) @ rd (sens ! 3) @ rd (sens ! 4)) * (1 / 1000000000))"

text \<open>The \<^verbatim>\<open>shape\<close> of a matrix stored as a list of rows.\<close>

definition has_shape :: "real list list \<Rightarrow> nat \<Rightarrow> nat \<Rightarrow> bool" where
  "has_shape m rows cols = (length m = rows \<and> list_all (\<lambda>r. length r = cols) m)"

definition observation_ok :: "world \<Rightarrow> env \<Rightarrow> observation \<Rightarrow> bool" where
  "observation_ok w e ob =
     (has_shape (obs_joints ob) 3 (length (actuated_joints e))
      \<and> list_all (joint_column w e ob) [0..<length (actuated_joints e)]
      \<and> has_shape (obs_fly ob) 4 3)"

text \<open>An action that gives one value per actuated joint.\<close>

definition action_ok :: "env \<Rightarrow> (string \<rightharpoonup> real list) \<Rightarrow> bool" where
  "action_ok e action =
     (case action ''joints'' of
        None \<Rightarrow> False
      | Some values \<Rightarrow> length values = length (actuated_joints e))"

section \<open>A small world for concrete runs\<close>

text \<open>
  A model with two actuated joints, a pose file that sets one of them, and an engine
  whose sensors read the stored state. The caller passes a render configuration with a
  new frame rate and with an option name that no default set has.
\<close>

definition demo_world :: world where
  "demo_world =
     \<lparr>mjcf_actuators =
        [\<lparr>act_name = ''actuator_position_joint_RFCoxa'', act_joint = ''joint_RFCoxa''\<rparr>,
         \<lparr>act_name = ''actuator_position_joint_RFTarsus2'', act_joint = ''joint_RFTarsus2''\<rparr>],
      pose_file = (\<lambda>v. if v = ''default''
                         then [''joint_RFCoxa'' \<mapsto> 30, ''joint_LFCoxa'' \<mapsto> 45]
                         else Map.empty),
      spawn_entity = (\<lambda>kind vs rel_pos rel_angle.
         \<lparr>arena_geoms = [Some ''ground'', Some ''RFCoxa_collision''],
          arena_joints = [Some ''joint_RFCoxa'', Some ''joint_RFTarsus2'', None],
          arena_scene = 0\<rparr>),
      from_mjcf_model = (\<lambda>ar dt.
         \<lparr>qpos = (\<lambda>_. 0), ctrl = (\<lambda>_. 0), geom_friction = (\<lambda>_. Num 1),
          joint_stiffness = (\<lambda>_. Num 0), joint_damping = (\<lambda>_. Num 0),
          actuator_gainprm0 = (\<lambda>_. Num 1), gravity = Num 0, opaque = 0\<rparr>),
      eng_reset = (\<lambda>p. p\<lparr>qpos := (\<lambda>_. 0), ctrl := (\<lambda>_. 0), opaque := 0\<rparr>),
      eng_step = (\<lambda>p. p\<lparr>opaque := Suc (opaque p)\<rparr>),
      eng_sensordata = (\<lambda>p sn.
         if stype sn = ''jointpos'' then [qpos p (''Animat/'' @ sobjname sn)]
         else if stype sn = ''framequat'' then [1, 0, 0, 0]
         else if stype sn = ''framepos'' \<or> stype sn = ''framelinvel''
                 \<or> stype sn = ''frameangvel'' then [0, 0, 0]
         else if stype sn = ''actuatorfrc'' then [ctrl p (sobjname sn)]
         else [0]),
      eng_render = (\<lambda>p width height. [opaque p]),
      quat_to_euler = (\<lambda>q. [0, 0, 0])\<rparr>"

definition demo_store :: store where
  "demo_store =
     module_store\<lparr>cells := (cells module_store)(8 := [''bogus'' \<mapsto> Num 1, ''fps'' \<mapsto> Num 30]),
                  next_free := 9\<rparr>"

definition demo_args :: args where
  "demo_args =
     \<lparr>arg_render_mode = ''saved'', arg_render_config = 8,
      arg_actuated_joints = [''joint_RFCoxa'', ''joint_RFTarsus2''],
      arg_timestep = 1 / 10000, arg_output_dir = Some ''out'',
      arg_terrain = ''flat'', arg_terrain_config = 7, arg_physics_config = 7,
      arg_control = ''position'', arg_init_pose = ''default''\<rparr>"

text \<open>The instance that the constructor returns in this world.\<close>

definition demo_env :: env where
  "demo_env =
     \<lparr>render_mode = ''saved'', render_config = 9,
      actuated_joints = [''joint_RFCoxa'', ''joint_RFTarsus2''],
      timestep = 1 / 10000, output_dir = Some ''out'', terrain = ''flat'',
      terrain_config = 10, physics_config = 11, control = ''position'',
      action_space = \<lparr>box_bound = Some pi, box_shape = [2]\<rparr>,
      observation_space_joints = \<lparr>box_bound = None, box_shape = [3, 2]\<rparr>,
      observation_space_fly = \<lparr>box_bound = None, box_shape = [4, 3]\<rparr>,
      init_pose = [''joint_RFCoxa'' \<mapsto> deg2rad 30],
      actuators =
        [Some \<lparr>act_name = ''actuator_position_joint_RFCoxa'', act_joint = ''joint_RFCoxa''\<rparr>,
         Some \<lparr>act_name = ''actuator_position_joint_RFTarsus2'',
                act_joint = ''joint_RFTarsus2''\<rparr>],
      joint_sensors = add_joint_sensors [''joint_RFCoxa'', ''joint_RFTarsus2''],
      body_sensors = add_body_sensors,
      physics =
        \<lparr>qpos = (\<lambda>_. 0)(''Animat/joint_RFCoxa'' := deg2rad 30),
         ctrl = (\<lambda>_. 0),
         geom_friction =
           (\<lambda>_. Num 1)(''Animat/RFCoxa_collision'' := Tup [Num 1, Num 0.005, Num 0.0001]),
         joint_stiffness =
           (\<lambda>_. Num 0)(''Animat/joint_RFCoxa'' := Num 2500,
                         ''Animat/joint_RFTarsus2'' := Num 0),
         joint_damping = (\<lambda>_. Num 0)(''Animat/joint_RFTarsus2'' := Num 100),
         actuator_gainprm0 =
           (\<lambda>_. Num 1)(''Animat/actuator_position_joint_RFTarsus2'' := Num 5),
         gravity = Tup [Num 0, Num 0, Num (- 981000)],
         opaque = 0\<rparr>,
      curr_time = 0, last_render_time = None,
      eff_render_interval = Some (1 / 30), frames = []\<rparr>"

text \<open>The store after that construction: three new dictionaries.\<close>

definition demo_store1 :: store where
  "demo_store1 =
     demo_store\<lparr>cells := (cells demo_store)
                   (9 := saved_defaults(''bogus'' \<mapsto> Num 1, ''fps'' \<mapsto> Num 30),
                    10 := flat_defaults, 11 := physics_defaults),
                next_free := 12\<rparr>"

text \<open>An action for the two joints, and the arguments of the runs that go wrong.\<close>

definition demo_action :: "string \<rightharpoonup> real list" where
  "demo_action = [''joints'' \<mapsto> [1 / 2, 1 / 4]]"

definition unknown_control_args :: args where
  "unknown_control_args = demo_args\<lparr>arg_control := ''bogus'', arg_actuated_joints := []\<rparr>"

text \<open>The instance after one recorded frame, and an empty outside world.\<close>

definition demo_recorded :: env where
  "demo_recorded = demo_env\<lparr>last_render_time := Some 0, frames := [[0]]\<rparr>"


text \<open>A second construction, with the caller's dictionaries all empty.\<close>

definition demo_args2 :: args where
  "demo_args2 = demo_args\<lparr>arg_render_config := 7\<rparr>"

text \<open>
  The instance later in a run: the clock has advanced and the engine has moved every
  joint away from its initial angle.
\<close>

definition demo_drifted :: env where
  "demo_drifted =
     demo_env\<lparr>physics := (physics demo_env)\<lparr>qpos := (\<lambda>_. 7)\<rparr>,
              curr_time := 3 / 10000\<rparr>"

text \<open>The same instance with the render mode set to one that is not implemented.\<close>

definition demo_viewer :: env where
  "demo_viewer = demo_env\<lparr>render_mode := ''viewer''\<rparr>"

section \<open>Basic facts\<close>

lemmas defaults_defs = flat_defaults_def gapped_defaults_def blocks_defaults_def ball_defaults_def
  physics_defaults_def saved_defaults_def headless_defaults_def
lemmas addr_defs = addr_flat_def addr_gapped_def addr_blocks_def addr_ball_def addr_physics_def
  addr_saved_def addr_headless_def

lemma demo_assemble:
  "assemble_configs demo_store demo_args = (Inr (9, 10, 11), demo_store1)"
  by (simp add: assemble_configs_def demo_store_def demo_store1_def demo_args_def module_store_def
     default_render_config_def default_terrain_config_def default_physics_config_def
     addr_defs deepcopy_def dict_update_def)

lemma demo_pose:
  "load_init_pose demo_world demo_args = Inr [''joint_RFCoxa'' \<mapsto> deg2rad 30]"
proof -
  have "(\<lambda>k. map_option deg2rad (pose_file demo_world ''default'' k))
          |` set [''joint_RFCoxa'', ''joint_RFTarsus2''] = [''joint_RFCoxa'' \<mapsto> deg2rad 30]"
    by (rule ext) (simp add: restrict_map_def demo_world_def)
  then show ?thesis
    by (simp add: load_init_pose_def demo_args_def metadata_init_pose_def)
qed

lemma demo_init: "init demo_world demo_store demo_args = (Inr demo_env, demo_store1)"
  apply (simp add: init_def demo_assemble init_rest_def wire_def demo_pose)
  apply (simp add: demo_store_def demo_store1_def demo_args_def module_store_def
     addr_defs defaults_defs Let_def
     build_terrain_def spawn_def
     sbind_def lookup_def demo_world_def render_interval_def set_compliant_Tarsus_def
     resolve_actuators_def find_actuator_def actuator_name_def set_init_pose_def
     upt_rec demo_env_def)
  done


lemma sbind_Inl: "sbind (Inl e) f = Inl e"
  by (simp add: sbind_def)

lemma sbind_Inr: "sbind (Inr v) f = f v"
  by (simp add: sbind_def)

lemma sbind_Inr_iff: "sbind m f = Inr r \<longleftrightarrow> (\<exists>v. m = Inr v \<and> f v = Inr r)"
  by (cases m) (simp_all add: sbind_def)

lemma raises_simps: "raises (Inl x) = True" "raises (Inr y) = False"
  by (simp_all add: raises_def)

lemma raises_sbind: "raises m \<Longrightarrow> raises (sbind m f)"
  by (cases m) (simp_all add: sbind_def raises_def)

lemma default_render_config_range:
  "default_render_config m = Some rd \<Longrightarrow> rd < 7"
  by (auto simp: default_render_config_def addr_defs split: if_splits)

lemma default_terrain_config_range:
  "default_terrain_config m = Some td \<Longrightarrow> td < 7"
  by (auto simp: default_terrain_config_def addr_defs split: if_splits)

lemma assemble_frame:
  assumes "assemble_configs s a = (r, s')" and "ad < next_free s"
  shows "cells s' ad = cells s ad"
  using assms
  by (auto simp: assemble_configs_def deepcopy_def dict_update_def Let_def
      split: option.splits)

lemma assemble_next_free:
  assumes "assemble_configs s a = (r, s')"
  shows "next_free s \<le> next_free s'"
  using assms
  by (auto simp: assemble_configs_def deepcopy_def dict_update_def Let_def
      split: option.splits)

lemma assemble_merge:
  assumes "args_allocated s a" and "assemble_configs s a = (Inr (rc, tc, pc), s')"
  shows "\<exists>rd td. default_render_config (arg_render_mode a) = Some rd
           \<and> default_terrain_config (arg_terrain a) = Some td
           \<and> rc = next_free s \<and> tc = next_free s + 1 \<and> pc = next_free s + 2
           \<and> cells s' rc = cells s rd ++ cells s (arg_render_config a)
           \<and> cells s' tc = cells s td ++ cells s (arg_terrain_config a)
           \<and> cells s' pc = cells s default_physics_config ++ cells s (arg_physics_config a)"
  using assms
  by (auto simp: assemble_configs_def deepcopy_def dict_update_def Let_def args_allocated_def
      default_physics_config_def addr_physics_def
      dest!: default_render_config_range default_terrain_config_range
      split: option.splits)

lemma init_snd: "snd (init w s a) = snd (assemble_configs s a)"
  by (simp add: init_def split: prod.splits sum.splits)

lemma init_Inr:
  "fst (init w s a) = Inr e \<longleftrightarrow>
     (\<exists>rc tc pc s'. assemble_configs s a = (Inr (rc, tc, pc), s')
        \<and> init_rest w s' a rc tc pc = Inr e)"
  by (auto simp: init_def split: prod.splits sum.splits)

lemma set_init_pose_Inr:
  "set_init_pose w e pose = Inr e' \<longleftrightarrow>
     (\<exists>p. write_pose (actuators e) [0..<length (actuated_joints e)] (actuated_joints e) pose
             (eng_reset w (physics e)) = Inr p \<and> e' = e\<lparr>physics := p\<rparr>)"
  by (auto simp: set_init_pose_def sbind_Inr_iff)

lemma compliant_actuators_Inr:
  "compliant_actuators acts kp p = Inr p' \<Longrightarrow> None \<notin> set acts"
  by (induction acts kp p rule: compliant_actuators.induct) auto

lemma compliant_actuators_None:
  "None \<in> set acts \<Longrightarrow> \<exists>err. compliant_actuators acts kp p = Inl err"
  using compliant_actuators_Inr [of acts kp p]
  by (cases "compliant_actuators acts kp p") auto

lemma wire_Inr:
  assumes "wire w s a rc tc pc = Inr e"
  shows "render_mode e = arg_render_mode a" "render_config e = rc"
    "actuated_joints e = arg_actuated_joints a" "timestep e = arg_timestep a"
    "output_dir e = arg_output_dir a" "terrain_config e = tc" "physics_config e = pc"
    "control e = arg_control a"
    "actuators e = resolve_actuators w (arg_control a) (arg_actuated_joints a)"
    "None \<notin> set (actuators e)"
    "joint_sensors e = add_joint_sensors (arg_actuated_joints a)"
    "body_sensors e = add_body_sensors"
    "curr_time e = 0" "last_render_time e = None" "frames e = []"
    "load_init_pose w a = Inr (init_pose e)"
    "render_interval (arg_render_mode a) (cells s rc) = Inr (eff_render_interval e)"
  using assms
  by (auto simp: wire_def sbind_Inr_iff Let_def set_compliant_Tarsus_def
      dest: compliant_actuators_Inr)


lemma init_rest_Inr:
  "init_rest w s a rc tc pc = Inr e \<longleftrightarrow>
     (\<exists>e0 p. wire w s a rc tc pc = Inr e0
        \<and> write_pose (actuators e0) [0..<length (actuated_joints e0)] (actuated_joints e0)
             (init_pose e0) (eng_reset w (physics e0)) = Inr p
        \<and> e = e0\<lparr>physics := p\<rparr>)"
  by (auto simp: init_rest_def sbind_Inr_iff set_init_pose_Inr)

lemma init_fields:
  assumes "fst (init w s a) = Inr e"
  shows "render_mode e = arg_render_mode a"
    "actuated_joints e = arg_actuated_joints a" "timestep e = arg_timestep a"
    "output_dir e = arg_output_dir a"
    "control e = arg_control a"
    "actuators e = resolve_actuators w (arg_control a) (arg_actuated_joints a)"
    "None \<notin> set (actuators e)"
    "joint_sensors e = add_joint_sensors (arg_actuated_joints a)"
    "body_sensors e = add_body_sensors"
    "curr_time e = 0" "last_render_time e = None" "frames e = []"
    "load_init_pose w a = Inr (init_pose e)"
  using assms by (auto simp: init_Inr init_rest_Inr dest: wire_Inr)

lemma init_wired: "fst (init w s a) = Inr e \<Longrightarrow> wired w e"
  unfolding wired_def
  using init_fields(2,5,6,7,8,9) [of w s a e] by metis

lemma find_actuator_name: "find_actuator w n = Some x \<Longrightarrow> act_name x = n"
  by (auto simp: find_actuator_def find_Some_iff)

lemma resolve_actuators_names:
  "None \<notin> set (resolve_actuators w c joints) \<Longrightarrow>
     list_all2 (\<lambda>act joint. \<exists>x. act = Some x \<and> act_name x = actuator_name c joint)
       (resolve_actuators w c joints) joints"
proof (induction joints)
  case Nil
  then show ?case by (simp add: resolve_actuators_def)
next
  case (Cons joint joints)
  from Cons.prems obtain x where "find_actuator w (actuator_name c joint) = Some x"
    by (cases "find_actuator w (actuator_name c joint)") (auto simp: resolve_actuators_def)
  with Cons show ?case
    by (auto simp: resolve_actuators_def dest: find_actuator_name)
qed


text \<open>
  Claim C1, as the code has it. The constructor looks up, for every joint of the
  actuated-joint list and in its order, the actuator named
  \<^verbatim>\<open>actuator_{control}_{joint}\<close>: an instance that was constructed holds exactly these
  lookups, each one found and carrying that name. When the model has no actuator of that
  name for some joint of the list, construction raises. The lookup itself returns
  \<^verbatim>\<open>None\<close>; the exception comes when \<^verbatim>\<open>_set_compliant_Tarsus\<close> reads the name of the
  missing actuator.
\<close>

theorem init_resolves_actuators:
  "(fst (init w s a) = Inr e \<longrightarrow>
      actuators e = resolve_actuators w (arg_control a) (arg_actuated_joints a)
      \<and> list_all2 (\<lambda>act joint. \<exists>x. act = Some x \<and> act_name x = actuator_name (arg_control a) joint)
          (actuators e) (arg_actuated_joints a))
   \<and> ((\<exists>joint \<in> set (arg_actuated_joints a).
          find_actuator w (actuator_name (arg_control a) joint) = None)
        \<longrightarrow> raises (fst (init w s a)))"
proof (intro conjI impI)
  assume ok: "fst (init w s a) = Inr e"
  then show "actuators e = resolve_actuators w (arg_control a) (arg_actuated_joints a)"
    by (simp add: init_fields)
  from ok have "None \<notin> set (resolve_actuators w (arg_control a) (arg_actuated_joints a))"
    using init_fields(6,7) by metis
  then show "list_all2 (\<lambda>act joint. \<exists>x. act = Some x \<and> act_name x = actuator_name (arg_control a) joint)
          (actuators e) (arg_actuated_joints a)"
    using ok by (simp add: init_fields resolve_actuators_names)
next
  assume "\<exists>joint \<in> set (arg_actuated_joints a).
            find_actuator w (actuator_name (arg_control a) joint) = None"
  then have missing: "None \<in> set (resolve_actuators w (arg_control a) (arg_actuated_joints a))"
    by (force simp: resolve_actuators_def)
  show "raises (fst (init w s a))"
  proof (cases "fst (init w s a)")
    case (Inl err)
    then show ?thesis by (simp add: raises_def)
  next
    case (Inr e')
    then have "None \<notin> set (resolve_actuators w (arg_control a) (arg_actuated_joints a))"
      using init_fields(6,7) by metis
    with missing show ?thesis by simp
  qed
qed

text \<open>
  The small world has position actuators only: construction succeeds with position
  control and raises with velocity control.
\<close>

theorem init_resolves_actuators_witness:
  "fst (init demo_world demo_store demo_args) = Inr demo_env
   \<and> actuators demo_env =
       resolve_actuators demo_world ''position'' [''joint_RFCoxa'', ''joint_RFTarsus2'']
   \<and> find_actuator demo_world (actuator_name ''velocity'' ''joint_RFCoxa'') = None
   \<and> raises (fst (init demo_world demo_store (demo_args\<lparr>arg_control := ''velocity''\<rparr>)))"
proof -
  have ok: "fst (init demo_world demo_store demo_args) = Inr demo_env"
    by (simp add: demo_init)
  have missing: "find_actuator demo_world (actuator_name ''velocity'' ''joint_RFCoxa'') = None"
    by (simp add: find_actuator_def actuator_name_def demo_world_def)
  have "\<exists>joint \<in> set (arg_actuated_joints (demo_args\<lparr>arg_control := ''velocity''\<rparr>)).
          find_actuator demo_world
            (actuator_name (arg_control (demo_args\<lparr>arg_control := ''velocity''\<rparr>)) joint) = None"
    using missing by (simp add: demo_args_def)
  then have "raises (fst (init demo_world demo_store (demo_args\<lparr>arg_control := ''velocity''\<rparr>)))"
    using init_resolves_actuators [of demo_world demo_store "demo_args\<lparr>arg_control := ''velocity''\<rparr>"]
    by blast
  moreover have "actuators demo_env =
       resolve_actuators demo_world ''position'' [''joint_RFCoxa'', ''joint_RFTarsus2'']"
    using init_resolves_actuators [of demo_world demo_store demo_args demo_env] ok
    by (simp add: demo_args_def)
  ultimately show ?thesis using ok missing by simp
qed

text \<open>
  Claim C1 as stated fails: the control mode is never compared with the list of control
  modes. With no actuated joint there is no lookup, and a control mode that is not in
  \<^verbatim>\<open>_metadata['control']\<close> is accepted.
\<close>

theorem unknown_control_counterexample:
  "arg_control unknown_control_args \<notin> set metadata_control
   \<and> \<not> raises (fst (init demo_world demo_store unknown_control_args))"
proof -
  have asm: "assemble_configs demo_store unknown_control_args = (Inr (9, 10, 11), demo_store1)"
    by (simp add: assemble_configs_def unknown_control_args_def demo_store_def demo_store1_def
        demo_args_def module_store_def default_render_config_def default_terrain_config_def
        default_physics_config_def addr_defs deepcopy_def dict_update_def)
  have "\<exists>e. wire demo_world demo_store1 unknown_control_args 9 10 11 = Inr e
           \<and> actuators e = [] \<and> actuated_joints e = []"
    by (simp add: wire_def unknown_control_args_def load_init_pose_def
        demo_store_def demo_store1_def demo_args_def module_store_def
        addr_defs defaults_defs Let_def metadata_init_pose_def
        build_terrain_def spawn_def sbind_def lookup_def demo_world_def render_interval_def
        set_compliant_Tarsus_def resolve_actuators_def)
  then obtain e where "wire demo_world demo_store1 unknown_control_args 9 10 11 = Inr e"
    and "actuators e = []" and "actuated_joints e = []"
    by blast
  then have "\<not> raises (init_rest demo_world demo_store1 unknown_control_args 9 10 11)"
    by (simp add: init_rest_def sbind_def set_init_pose_def raises_def)
  then have "\<not> raises (fst (init demo_world demo_store unknown_control_args))"
    by (simp add: init_def asm)
  moreover have "arg_control unknown_control_args \<notin> set metadata_control"
    by (simp add: unknown_control_args_def metadata_control_def)
  ultimately show ?thesis by simp
qed

text \<open>
  The table of default render configurations has no entry for \<^verbatim>\<open>'viewer'\<close>: the
  constructor raises \<^verbatim>\<open>KeyError\<close> on its second line for it, whatever the other
  arguments are.
\<close>

lemma viewer_mode_KeyError:
  "fst (init w s (a\<lparr>arg_render_mode := ''viewer''\<rparr>)) = Inl (KeyError ''viewer'')"
  by (simp add: init_def assemble_configs_def default_render_config_def)

lemma init_configs:
  assumes "fst (init w s a) = Inr e"
  shows "assemble_configs s a =
           (Inr (render_config e, terrain_config e, physics_config e), snd (init w s a))"
  using assms
  by (auto simp: init_def init_rest_Inr split: prod.splits sum.splits dest: wire_Inr)

text \<open>
  Claim C3, as the code has it. For an instance that was constructed, each of the three
  bundles is the default dictionary of the chosen variant overridden by the caller's
  dictionary: every option of the caller is in the bundle, with the caller's value,
  whether or not the default set has an option of that name.
\<close>

theorem config_bundles_merged:
  assumes "args_allocated s a" and "fst (init w s a) = Inr e"
  shows "\<exists>rd td. default_render_config (arg_render_mode a) = Some rd
           \<and> default_terrain_config (arg_terrain a) = Some td
           \<and> cells (snd (init w s a)) (render_config e)
               = cells s rd ++ cells s (arg_render_config a)
           \<and> cells (snd (init w s a)) (terrain_config e)
               = cells s td ++ cells s (arg_terrain_config a)
           \<and> cells (snd (init w s a)) (physics_config e)
               = cells s default_physics_config ++ cells s (arg_physics_config a)"
  using assemble_merge [OF assms(1) init_configs [OF assms(2)]] by blast

lemma demo_allocated: "args_allocated demo_store demo_args"
  by (simp add: args_allocated_def demo_store_def demo_args_def)

text \<open>In the small world the caller's frame rate replaces the default one.\<close>

theorem config_bundles_merged_witness:
  "args_allocated demo_store demo_args
   \<and> fst (init demo_world demo_store demo_args) = Inr demo_env
   \<and> cells (snd (init demo_world demo_store demo_args)) (render_config demo_env)
       = cells demo_store addr_saved ++ cells demo_store (arg_render_config demo_args)
   \<and> cells (snd (init demo_world demo_store demo_args)) (render_config demo_env) ''fps''
       = Some (Num 30)"
proof -
  have ok: "fst (init demo_world demo_store demo_args) = Inr demo_env"
    by (simp add: demo_init)
  have mode: "default_render_config (arg_render_mode demo_args) = Some addr_saved"
    by (simp add: default_render_config_def demo_args_def)
  from config_bundles_merged [OF demo_allocated ok] mode
  have merged: "cells (snd (init demo_world demo_store demo_args)) (render_config demo_env)
       = cells demo_store addr_saved ++ cells demo_store (arg_render_config demo_args)"
    by auto
  have "(cells demo_store addr_saved ++ cells demo_store (arg_render_config demo_args)) ''fps''
          = Some (Num 30)"
    by (simp add: demo_store_def demo_args_def module_store_def addr_defs)
  with merged ok demo_allocated show ?thesis by simp
qed

text \<open>
  Claim C3 as stated fails: an option name that the default set of the chosen render
  mode does not have is no error. Construction succeeds and the option is kept.
\<close>

theorem unknown_option_counterexample:
  "default_render_config (arg_render_mode demo_args) = Some addr_saved
   \<and> cells demo_store addr_saved ''bogus'' = None
   \<and> cells demo_store (arg_render_config demo_args) ''bogus'' = Some (Num 1)
   \<and> fst (init demo_world demo_store demo_args) = Inr demo_env
   \<and> cells (snd (init demo_world demo_store demo_args)) (render_config demo_env) ''bogus''
       = Some (Num 1)"
proof -
  have "default_render_config (arg_render_mode demo_args) = Some addr_saved"
    by (simp add: default_render_config_def demo_args_def)
  moreover have "cells demo_store addr_saved ''bogus'' = None"
    by (simp add: demo_store_def module_store_def addr_defs saved_defaults_def)
  moreover have "cells demo_store (arg_render_config demo_args) ''bogus'' = Some (Num 1)"
    by (simp add: demo_store_def module_store_def demo_args_def)
  moreover have "cells demo_store1 (render_config demo_env) ''bogus'' = Some (Num 1)"
    by (simp add: demo_store1_def demo_env_def)
  ultimately show ?thesis by (simp add: demo_init)
qed

lemma set2_length: "length (set2 m r c v) = length m"
  by (simp add: set2_def)

lemma set2_nth:
  "r' < length m \<Longrightarrow>
     set2 m r c v ! r' = (if r' = r then (m ! r)[c := v] else m ! r')"
  by (simp add: set2_def)

lemma drop_concat_blocks:
  "(\<forall>x \<in> set xs. length (g x) = k) \<Longrightarrow>
     drop (i * k) (concat (map g xs)) = concat (map g (drop i xs))"
proof (induction xs arbitrary: i)
  case Nil
  then show ?case by simp
next
  case (Cons x xs)
  show ?case
  proof (cases i)
    case 0
    then show ?thesis by simp
  next
    case (Suc j)
    with Cons show ?thesis by simp
  qed
qed

lemma fill_joint_obs_spec:
  assumes "\<forall>i \<in> set is. i < n \<and> take 2 (drop (i * 5) d) = [P i, V i]
             \<and> sum_list (take 3 (drop (i * 5 + 2) d)) = T i"
    and "length m = 3" and "\<forall>r < 3. length (m ! r) = n"
  shows "\<exists>m'. fill_joint_obs d is m = Inr m' \<and> length m' = 3
           \<and> (\<forall>r < 3. length (m' ! r) = n)
           \<and> (\<forall>c < n. m' ! 0 ! c = (if c \<in> set is then P c else m ! 0 ! c)
                    \<and> m' ! 1 ! c = (if c \<in> set is then V c else m ! 1 ! c)
                    \<and> m' ! 2 ! c = (if c \<in> set is then T c else m ! 2 ! c))"
  using assms
proof (induction "is" arbitrary: m)
  case Nil
  then show ?case by simp
next
  case (Cons i "is")
  let ?m1 = "set2 (set2 (set2 m 0 i (P i)) 1 i (V i)) 2 i (T i)"
  have i: "i < n" "take 2 (drop (i * 5) d) = [P i, V i]"
    "sum_list (take 3 (drop (i * 5 + 2) d)) = T i"
    using Cons.prems(1) by auto
  have len: "length ?m1 = 3" using Cons.prems(2) by (simp add: set2_length)
  have rows: "\<forall>r < 3. length (?m1 ! r) = n"
    using Cons.prems(2,3) by (auto simp: set2_nth set2_length)
  have vals: "\<forall>c < n. ?m1 ! 0 ! c = (if c = i then P c else m ! 0 ! c)
      \<and> ?m1 ! 1 ! c = (if c = i then V c else m ! 1 ! c)
      \<and> ?m1 ! 2 ! c = (if c = i then T c else m ! 2 ! c)"
    using Cons.prems(2,3) by (auto simp: set2_nth set2_length)
  have rest: "\<forall>i \<in> set is. i < n \<and> take 2 (drop (i * 5) d) = [P i, V i]
             \<and> sum_list (take 3 (drop (i * 5 + 2) d)) = T i"
    using Cons.prems(1) by simp
  from Cons.IH [OF rest len rows] obtain m' where m':
    "fill_joint_obs d is ?m1 = Inr m'" "length m' = 3" "\<forall>r < 3. length (m' ! r) = n"
    "\<forall>c < n. m' ! 0 ! c = (if c \<in> set is then P c else ?m1 ! 0 ! c)
          \<and> m' ! 1 ! c = (if c \<in> set is then V c else ?m1 ! 1 ! c)
          \<and> m' ! 2 ! c = (if c \<in> set is then T c else ?m1 ! 2 ! c)"
    by blast
  have "fill_joint_obs d (i # is) m = Inr m'"
    using i m'(1) by (simp add: Let_def)
  moreover have "\<forall>c < n. m' ! 0 ! c = (if c \<in> set (i # is) then P c else m ! 0 ! c)
          \<and> m' ! 1 ! c = (if c \<in> set (i # is) then V c else m ! 1 ! c)
          \<and> m' ! 2 ! c = (if c \<in> set (i # is) then T c else m ! 2 ! c)"
    using m'(4) vals by auto
  ultimately show ?case using m'(2,3) by blast
qed


lemma scalar_sensor:
  assumes "engine_shapes w"
    and "stype sn \<noteq> ''framequat''" "stype sn \<noteq> ''framepos''"
    and "stype sn \<noteq> ''framelinvel''" "stype sn \<noteq> ''frameangvel''"
  shows "length (eng_sensordata w p sn) = 1"
  using assms by (simp add: engine_shapes_def)

lemma sensors_of_joint_scalar:
  assumes "engine_shapes w" and "k < 5"
  shows "length (eng_sensordata w p (sensors_of_joint joint ! k)) = 1"
proof -
  from assms(2) have "k = 0 \<or> k = 1 \<or> k = 2 \<or> k = 3 \<or> k = 4" by arith
  then show ?thesis
    using assms(1) by (auto simp: sensors_of_joint_def engine_shapes_def)
qed

lemma singleton_hd: "length xs = 1 \<Longrightarrow> xs = [hd xs]"
  by (cases xs) auto

lemma sensors_of_joint_readings:
  assumes "engine_shapes w"
  shows "concat (map (eng_sensordata w p) (sensors_of_joint joint)) =
     [hd (eng_sensordata w p (sensors_of_joint joint ! 0)),
      hd (eng_sensordata w p (sensors_of_joint joint ! 1)),
      hd (eng_sensordata w p (sensors_of_joint joint ! 2)),
      hd (eng_sensordata w p (sensors_of_joint joint ! 3)),
      hd (eng_sensordata w p (sensors_of_joint joint ! 4))]"
proof -
  have "\<And>k. k < 5 \<Longrightarrow> eng_sensordata w p (sensors_of_joint joint ! k)
                 = [hd (eng_sensordata w p (sensors_of_joint joint ! k))]"
    by (rule singleton_hd) (rule sensors_of_joint_scalar [OF assms])
  from this [of 0] this [of 1] this [of 2] this [of 3] this [of 4]
  have "eng_sensordata w p (sensors_of_joint joint ! 0) @
        eng_sensordata w p (sensors_of_joint joint ! 1) @
        eng_sensordata w p (sensors_of_joint joint ! 2) @
        eng_sensordata w p (sensors_of_joint joint ! 3) @
        eng_sensordata w p (sensors_of_joint joint ! 4) =
     [hd (eng_sensordata w p (sensors_of_joint joint ! 0)),
      hd (eng_sensordata w p (sensors_of_joint joint ! 1)),
      hd (eng_sensordata w p (sensors_of_joint joint ! 2)),
      hd (eng_sensordata w p (sensors_of_joint joint ! 3)),
      hd (eng_sensordata w p (sensors_of_joint joint ! 4))]"
    by simp
  moreover have "concat (map (eng_sensordata w p) (sensors_of_joint joint)) =
        eng_sensordata w p (sensors_of_joint joint ! 0) @
        eng_sensordata w p (sensors_of_joint joint ! 1) @
        eng_sensordata w p (sensors_of_joint joint ! 2) @
        eng_sensordata w p (sensors_of_joint joint ! 3) @
        eng_sensordata w p (sensors_of_joint joint ! 4)"
    by (simp add: sensors_of_joint_def)
  ultimately show ?thesis by simp
qed

lemma joint_sensordata_concat:
  "concat (map rd (add_joint_sensors joints)) =
     concat (map (\<lambda>joint. concat (map rd (sensors_of_joint joint))) joints)"
  by (induction joints) (simp_all add: add_joint_sensors_def)

lemma joint_sensordata_slices:
  assumes "engine_shapes w" and "i < length joints"
  shows "take 2 (drop (i * 5) (concat (map (eng_sensordata w p) (add_joint_sensors joints))))
          = [hd (eng_sensordata w p (sensors_of_joint (joints ! i) ! 0)),
             hd (eng_sensordata w p (sensors_of_joint (joints ! i) ! 1))]"
    and "take 3 (drop (i * 5 + 2)
            (concat (map (eng_sensordata w p) (add_joint_sensors joints))))
          = [hd (eng_sensordata w p (sensors_of_joint (joints ! i) ! 2)),
             hd (eng_sensordata w p (sensors_of_joint (joints ! i) ! 3)),
             hd (eng_sensordata w p (sensors_of_joint (joints ! i) ! 4))]"
proof -
  let ?g = "\<lambda>joint. concat (map (eng_sensordata w p) (sensors_of_joint joint))"
  let ?d = "concat (map (eng_sensordata w p) (add_joint_sensors joints))"
  have len: "\<forall>x \<in> set joints. length (?g x) = 5"
    by (simp add: sensors_of_joint_readings [OF assms(1)])
  have "drop (i * 5) ?d = concat (map ?g (drop i joints))"
    unfolding joint_sensordata_concat by (rule drop_concat_blocks [OF len])
  also have "drop i joints = joints ! i # drop (Suc i) joints"
    using assms(2) by (simp add: Cons_nth_drop_Suc)
  finally have blk: "drop (i * 5) ?d = ?g (joints ! i) @ concat (map ?g (drop (Suc i) joints))"
    by simp
  show "take 2 (drop (i * 5) ?d)
          = [hd (eng_sensordata w p (sensors_of_joint (joints ! i) ! 0)),
             hd (eng_sensordata w p (sensors_of_joint (joints ! i) ! 1))]"
    unfolding blk by (simp add: sensors_of_joint_readings [OF assms(1)])
  have "drop (i * 5 + 2) ?d = drop 2 (drop (i * 5) ?d)"
    by (simp add: add.commute)
  then show "take 3 (drop (i * 5 + 2) ?d)
          = [hd (eng_sensordata w p (sensors_of_joint (joints ! i) ! 2)),
             hd (eng_sensordata w p (sensors_of_joint (joints ! i) ! 3)),
             hd (eng_sensordata w p (sensors_of_joint (joints ! i) ! 4))]"
    unfolding blk by (simp add: sensors_of_joint_readings [OF assms(1)])
qed

lemma body_sensor_reads:
  assumes "body_sensors e = add_body_sensors"
  shows "py_nth (body_sensors e) 0 = Inr (add_body_sensors ! 0)"
    "py_nth (body_sensors e) 1 = Inr (add_body_sensors ! 1)"
    "py_nth (body_sensors e) 2 = Inr (add_body_sensors ! 2)"
    "py_nth (body_sensors e) 3 = Inr (add_body_sensors ! 3)"
  by (simp_all add: assms py_nth_def add_body_sensors_def)

lemma body_sensor_lengths:
  assumes "engine_shapes w"
  shows "length (eng_sensordata w p (add_body_sensors ! 0)) = 3"
    "length (eng_sensordata w p (add_body_sensors ! 1)) = 3"
    "length (eng_sensordata w p (add_body_sensors ! 3)) = 3"
    "length (quat_to_euler w q) = 3"
  using assms by (simp_all add: engine_shapes_def add_body_sensors_def)

lemma get_observation_ok:
  assumes es: "engine_shapes w"
    and js: "joint_sensors e = add_joint_sensors (actuated_joints e)"
    and bs: "body_sensors e = add_body_sensors"
  shows "\<exists>ob. get_observation w e = Inr ob \<and> observation_ok w e ob"
proof -
  let ?n = "length (actuated_joints e)"
  let ?rd = "eng_sensordata w (physics e)"
  let ?sens = "\<lambda>i. sensors_of_joint (actuated_joints e ! i)"
  let ?d = "concat (map ?rd (add_joint_sensors (actuated_joints e)))"
  let ?P = "\<lambda>i. hd (?rd (?sens i ! 0))"
  let ?V = "\<lambda>i. hd (?rd (?sens i ! 1))"
  let ?T = "\<lambda>i. hd (?rd (?sens i ! 2)) + hd (?rd (?sens i ! 3)) + hd (?rd (?sens i ! 4))"
  have sl: "\<forall>i \<in> set [0..<?n]. i < ?n \<and> take 2 (drop (i * 5) ?d) = [?P i, ?V i]
              \<and> sum_list (take 3 (drop (i * 5 + 2) ?d)) = ?T i"
    using joint_sensordata_slices [OF es, of _ "actuated_joints e" "physics e"] by simp
  have z: "length (replicate 3 (replicate ?n (0::real))) = 3"
    "\<forall>r < 3. length (replicate 3 (replicate ?n (0::real)) ! r) = ?n"
    by simp_all
  from fill_joint_obs_spec [OF sl z] obtain m where m:
    "fill_joint_obs ?d [0..<?n] (replicate 3 (replicate ?n 0)) = Inr m"
    "length m = 3" "\<forall>r < 3. length (m ! r) = ?n"
    "\<forall>c < ?n. m ! 0 ! c = ?P c \<and> m ! 1 ! c = ?V c \<and> m ! 2 ! c = ?T c"
    by auto
  define jo where "jo = m[2 := map (\<lambda>x. x * (1 / 1000000000)) (m ! 2)]"
  define fly where "fly =
     [?rd (add_body_sensors ! 0), ?rd (add_body_sensors ! 1),
      (quat_to_euler w (?rd (add_body_sensors ! 2)))
        [0 := quat_to_euler w (?rd (add_body_sensors ! 2)) ! 0 * (- 1)],
      ?rd (add_body_sensors ! 3)]"
  have fly_shape: "has_shape fly 4 3"
    using body_sensor_lengths(1,2,3) [OF es, of "physics e"] body_sensor_lengths(4) [OF es]
    by (simp add: fly_def has_shape_def)
  then have np: "np_array fly = Inr fly"
    by (auto simp: np_array_def has_shape_def list_all_iff fly_def)
  have roll: "py_nth (quat_to_euler w (?rd (add_body_sensors ! 2))) 0
                = Inr (quat_to_euler w (?rd (add_body_sensors ! 2)) ! 0)"
    using body_sensor_lengths(4) [OF es] by (simp add: py_nth_def)
  have go: "get_observation w e = Inr \<lparr>obs_joints = jo, obs_fly = fly\<rparr>"
    using np body_sensor_reads [OF bs] roll
    by (simp add: get_observation_def Let_def js m(1) sbind_Inr jo_def fly_def)
  have jo_shape: "has_shape jo 3 ?n"
    using m(2,3) by (auto simp: has_shape_def jo_def list_all_length nth_list_update)
  have cols: "\<forall>i < ?n. joint_column w e \<lparr>obs_joints = jo, obs_fly = fly\<rparr> i"
  proof (intro allI impI)
    fix i assume i: "i < ?n"
    have ex: "\<And>k. k < 5 \<Longrightarrow> \<exists>x. ?rd (?sens i ! k) = [x]"
      using sensors_of_joint_scalar [OF es, of _ "physics e" "actuated_joints e ! i"]
      by (simp add: length_Suc_conv)
    obtain a where a: "?rd (?sens i ! 0) = [a]" using ex [of 0] by auto
    obtain b where b: "?rd (?sens i ! 1) = [b]" using ex [of 1] by auto
    obtain f1 where f1: "?rd (?sens i ! 2) = [f1]" using ex [of 2] by auto
    obtain f2 where f2: "?rd (?sens i ! 3) = [f2]" using ex [of 3] by auto
    obtain f3 where f3: "?rd (?sens i ! 4) = [f3]" using ex [of 4] by auto
    have j0: "jo ! 0 ! i = a" and j1: "jo ! 1 ! i = b"
      and j2: "jo ! 2 ! i = (f1 + f2 + f3) * (1 / 1000000000)"
      using m(2,3,4) i a b f1 f2 f3 by (simp_all add: jo_def)
    show "joint_column w e \<lparr>obs_joints = jo, obs_fly = fly\<rparr> i"
      using a b f1 f2 f3 j0 j1 j2
      by (simp add: joint_column_def Let_def)
  qed
  have "observation_ok w e \<lparr>obs_joints = jo, obs_fly = fly\<rparr>"
    using jo_shape fly_shape cols by (simp add: observation_ok_def list_all_iff)
  with go show ?thesis by blast
qed

lemma write_pose_returns:
  "None \<notin> set acts \<Longrightarrow> \<forall>i \<in> set is. i < length acts \<Longrightarrow>
     \<exists>p'. write_pose acts is joints pose p = Inr p'"
proof (induction "is" arbitrary: p)
  case Nil
  then show ?case by simp
next
  case (Cons i "is")
  then obtain a where "acts ! i = Some a"
    by (cases "acts ! i") (auto simp: in_set_conv_nth)
  with Cons show ?case by simp
qed

lemma wiredD:
  assumes "wired w e"
  shows "actuators e = resolve_actuators w (control e) (actuated_joints e)"
    "None \<notin> set (actuators e)"
    "joint_sensors e = add_joint_sensors (actuated_joints e)"
    "body_sensors e = add_body_sensors"
  using assms unfolding wired_def by blast+

lemma wired_length: "wired w e \<Longrightarrow> length (actuators e) = length (actuated_joints e)"
  using wiredD(1) [of w e] by (simp add: resolve_actuators_def)

lemma write_pose_wired:
  assumes "wired w e"
  shows "\<exists>p'. write_pose (actuators e) [0..<length (actuated_joints e)] (actuated_joints e)
                 pose p = Inr p'"
proof -
  have "None \<notin> set (actuators e)" using assms by (rule wiredD)
  moreover have "\<forall>i \<in> set [0..<length (actuated_joints e)]. i < length (actuators e)"
    using wired_length [OF assms] by simp
  ultimately show ?thesis using write_pose_returns by blast
qed

lemma reset_Inr:
  "reset w e = Inr (e1, ob, info) \<longleftrightarrow>
     (\<exists>p. write_pose (actuators e) [0..<length (actuated_joints e)] (actuated_joints e)
             (init_pose e) (eng_reset w (eng_reset w (physics e))) = Inr p
          \<and> e1 = e\<lparr>curr_time := 0, physics := p, frames := [], last_render_time := None\<rparr>
          \<and> get_observation w e1 = Inr ob \<and> info = get_info)"
  by (auto simp: reset_def Let_def sbind_Inr_iff set_init_pose_Inr)

lemma step_Inr:
  "step w e action = Inr (e1, ob, info) \<longleftrightarrow>
     (\<exists>values p. action ''joints'' = Some values
          \<and> bind_ctrl (actuators e) values (physics e) = Inr p
          \<and> e1 = e\<lparr>physics := eng_step w p, curr_time := curr_time e + timestep e\<rparr>
          \<and> get_observation w e1 = Inr ob \<and> info = get_info)"
  by (auto simp: step_def Let_def sbind_Inr_iff split: option.splits)

lemma wired_update:
  "wired w (e\<lparr>physics := p\<rparr>) = wired w e"
  "wired w (e\<lparr>curr_time := t\<rparr>) = wired w e"
  "wired w (e\<lparr>frames := fs\<rparr>) = wired w e"
  "wired w (e\<lparr>last_render_time := l\<rparr>) = wired w e"
  by (simp_all add: wired_def)

lemma reset_returns:
  assumes "wired w e" and "engine_shapes w"
  shows "\<exists>e1 ob. reset w e = Inr (e1, ob, get_info) \<and> observation_ok w e1 ob \<and> wired w e1
           \<and> actuated_joints e1 = actuated_joints e \<and> timestep e1 = timestep e"
proof -
  from write_pose_wired [OF assms(1)] obtain p where
    p: "write_pose (actuators e) [0..<length (actuated_joints e)] (actuated_joints e)
          (init_pose e) (eng_reset w (eng_reset w (physics e))) = Inr p"
    by blast
  let ?e1 = "e\<lparr>curr_time := 0, physics := p, frames := [], last_render_time := None\<rparr>"
  have w1: "wired w ?e1" using assms(1) by (simp add: wired_update)
  then obtain ob where ob: "get_observation w ?e1 = Inr ob" "observation_ok w ?e1 ob"
    using get_observation_ok [OF assms(2) wiredD(3,4) [OF w1]] by blast
  have "reset w e = Inr (?e1, ob, get_info)"
    using p ob(1) by (simp add: reset_Inr)
  then show ?thesis
    using ob(2) w1 by (intro exI [of _ ?e1] exI [of _ ob]) simp
qed

lemma action_ok_cong:
  "actuated_joints e1 = actuated_joints e \<Longrightarrow> action_ok e1 action = action_ok e action"
  by (simp add: action_ok_def split: option.splits)

lemma bind_ctrl_returns:
  "None \<notin> set acts \<Longrightarrow> length values = length acts \<Longrightarrow>
     bind_ctrl acts values p = Inr (write_ctrl (map the acts) values p)"
  by (simp add: bind_ctrl_def)

lemma step_returns:
  assumes "wired w e" and "engine_shapes w" and "action_ok e action"
  shows "\<exists>e1 ob. step w e action = Inr (e1, ob, get_info) \<and> observation_ok w e1 ob
           \<and> wired w e1 \<and> actuated_joints e1 = actuated_joints e \<and> timestep e1 = timestep e"
proof -
  from assms(3) obtain vals where v: "action ''joints'' = Some vals"
    "length vals = length (actuated_joints e)"
    by (auto simp: action_ok_def split: option.splits)
  have b: "bind_ctrl (actuators e) vals (physics e)
             = Inr (write_ctrl (map the (actuators e)) vals (physics e))"
    using wiredD(2) [OF assms(1)] v(2) wired_length [OF assms(1)]
    by (intro bind_ctrl_returns) simp_all
  let ?e1 = "e\<lparr>physics := eng_step w (write_ctrl (map the (actuators e)) vals (physics e)),
                curr_time := curr_time e + timestep e\<rparr>"
  have w1: "wired w ?e1" using assms(1) by (simp add: wired_update)
  then obtain ob where ob: "get_observation w ?e1 = Inr ob" "observation_ok w ?e1 ob"
    using get_observation_ok [OF assms(2) wiredD(3,4) [OF w1]] by blast
  have "step w e action = Inr (?e1, ob, get_info)"
    using v(1) b ob(1) by (simp add: step_Inr)
  then show ?thesis
    using ob(2) w1 by (intro exI [of _ ?e1] exI [of _ ob]) simp
qed

lemma steps_returns:
  assumes "engine_shapes w"
  shows "wired w e \<Longrightarrow> \<forall>action \<in> set actions. action_ok e action \<Longrightarrow>
           \<exists>e1. steps w e actions = Inr e1"
proof (induction actions arbitrary: e)
  case Nil
  then show ?case by simp
next
  case (Cons action actions)
  from step_returns [OF Cons.prems(1) assms, of action] Cons.prems(2) obtain e1 ob where
    s: "step w e action = Inr (e1, ob, get_info)" "wired w e1"
    "actuated_joints e1 = actuated_joints e"
    by auto
  have "\<forall>action \<in> set actions. action_ok e1 action"
    using Cons.prems(2) action_ok_cong [OF s(3)] by simp
  from Cons.IH [OF s(2) this] s(1) show ?case by (simp add: sbind_Inr)
qed

lemma steps_clock:
  "steps w e actions = Inr e1 \<Longrightarrow>
     curr_time e1 = curr_time e + real (length actions) * timestep e \<and> timestep e1 = timestep e"
proof (induction actions arbitrary: e)
  case Nil
  then show ?case by simp
next
  case (Cons action actions)
  from Cons.prems obtain e' ob info where
    s: "step w e action = Inr (e', ob, info)" "steps w e' actions = Inr e1"
    by (auto simp: sbind_Inr_iff)
  from s(1) have "curr_time e' = curr_time e + timestep e" "timestep e' = timestep e"
    by (auto simp: step_Inr)
  with Cons.IH [OF s(2)] show ?case by (simp add: algebra_simps)
qed

lemma demo_wired: "wired demo_world demo_env"
  using init_wired [of demo_world demo_store demo_args demo_env] by (simp add: demo_init)

lemma demo_shapes: "engine_shapes demo_world"
  by (simp add: engine_shapes_def demo_world_def)

lemma demo_action_ok: "action_ok demo_env demo_action"
  by (simp add: action_ok_def demo_action_def demo_env_def)

lemma get_observation_unique:
  assumes "wired w e" and "engine_shapes w" and "get_observation w e = Inr ob"
  shows "observation_ok w e ob"
  using get_observation_ok [OF assms(2) wiredD(3,4) [OF assms(1)]] assms(3) by auto

lemma reset_wired: "wired w e \<Longrightarrow> reset w e = Inr (e1, ob, info) \<Longrightarrow> wired w e1"
  by (auto simp: reset_Inr wired_update)

lemma step_wired: "wired w e \<Longrightarrow> step w e action = Inr (e1, ob, info) \<Longrightarrow> wired w e1"
  by (auto simp: step_Inr wired_update)

text \<open>
  Claim C5. For an instance whose sensors are the ones the constructor added, and an
  engine that returns readings of the documented sizes, \<^verbatim>\<open>reset\<close> returns, and so does
  \<^verbatim>\<open>step\<close> for an action with one value per joint. Every observation that is returned
  has a \<^verbatim>\<open>joints\<close> matrix of three rows with one column per actuated joint, in the order
  of the list: column \<open>i\<close> holds the position and the velocity reading of the \<open>i\<close>-th
  joint and the sum of its three actuator-force readings times \<open>1e-9\<close>. Its \<^verbatim>\<open>fly\<close>
  matrix has four rows of three entries, and the info mapping is empty.
\<close>

theorem observations_shaped:
  assumes "wired w e" and "engine_shapes w"
  shows "(\<exists>e1 ob. reset w e = Inr (e1, ob, Map.empty) \<and> observation_ok w e1 ob)
   \<and> (action_ok e action \<longrightarrow>
        (\<exists>e1 ob. step w e action = Inr (e1, ob, Map.empty) \<and> observation_ok w e1 ob))
   \<and> (\<forall>e1 ob info. step w e action = Inr (e1, ob, info) \<longrightarrow>
        observation_ok w e1 ob \<and> info = Map.empty)"
proof (intro conjI impI allI)
  show "\<exists>e1 ob. reset w e = Inr (e1, ob, Map.empty) \<and> observation_ok w e1 ob"
    using reset_returns [OF assms] by (auto simp: get_info_def)
next
  assume "action_ok e action"
  from step_returns [OF assms this]
  show "\<exists>e1 ob. step w e action = Inr (e1, ob, Map.empty) \<and> observation_ok w e1 ob"
    by (auto simp: get_info_def)
next
  fix e1 ob info
  assume s: "step w e action = Inr (e1, ob, info)"
  then have "get_observation w e1 = Inr ob" by (auto simp: step_Inr)
  from get_observation_unique [OF step_wired [OF assms(1) s] assms(2) this]
  show "observation_ok w e1 ob" .
  from s show "info = Map.empty" by (auto simp: step_Inr get_info_def)
qed

lemma demo_reset:
  "reset demo_world demo_env =
     Inr (demo_env,
          \<lparr>obs_joints = [[deg2rad 30, 0], [0, 0], [0, 0]],
           obs_fly = [[0, 0, 0], [0, 0, 0], [0, 0, 0], [0, 0, 0]]\<rparr>,
          Map.empty)"
  by (simp add: reset_def demo_env_def demo_world_def set_init_pose_def sbind_def Let_def
      upt_rec get_observation_def add_joint_sensors_def sensors_of_joint_def
      add_body_sensors_def py_nth_def np_array_def set2_def get_info_def
      numeral_3_eq_3 numeral_2_eq_2)

text \<open>
  In the small world the first joint is posed at thirty degrees, and the observation
  after a reset shows it in the first column.
\<close>

theorem observations_shaped_witness:
  "wired demo_world demo_env \<and> engine_shapes demo_world \<and> action_ok demo_env demo_action
   \<and> reset demo_world demo_env =
       Inr (demo_env,
            \<lparr>obs_joints = [[deg2rad 30, 0], [0, 0], [0, 0]],
             obs_fly = [[0, 0, 0], [0, 0, 0], [0, 0, 0], [0, 0, 0]]\<rparr>,
            Map.empty)
   \<and> observation_ok demo_world demo_env
         \<lparr>obs_joints = [[deg2rad 30, 0], [0, 0], [0, 0]],
          obs_fly = [[0, 0, 0], [0, 0, 0], [0, 0, 0], [0, 0, 0]]\<rparr>
   \<and> (\<exists>e1 ob. step demo_world demo_env demo_action = Inr (e1, ob, Map.empty)
          \<and> observation_ok demo_world e1 ob)"
proof -
  from observations_shaped [OF demo_wired demo_shapes, of demo_action] demo_action_ok
  have a: "\<exists>e1 ob. reset demo_world demo_env = Inr (e1, ob, Map.empty)
             \<and> observation_ok demo_world e1 ob"
    and b: "\<exists>e1 ob. step demo_world demo_env demo_action = Inr (e1, ob, Map.empty)
             \<and> observation_ok demo_world e1 ob"
    by blast+
  from a have "observation_ok demo_world demo_env
         \<lparr>obs_joints = [[deg2rad 30, 0], [0, 0], [0, 0]],
          obs_fly = [[0, 0, 0], [0, 0, 0], [0, 0, 0], [0, 0, 0]]\<rparr>"
    by (simp add: demo_reset)
  with b demo_wired demo_shapes demo_action_ok demo_reset show ?thesis by blast
qed

lemma write_ctrl_other:
  "name \<notin> act_name ` set as \<Longrightarrow> ctrl (write_ctrl as xs p) name = ctrl p name"
proof (induction as arbitrary: xs p)
  case Nil
  then show ?case by simp
next
  case (Cons a as)
  then show ?case by (cases xs) auto
qed

lemma write_ctrl_nth:
  "distinct (map act_name as) \<Longrightarrow> length xs = length as \<Longrightarrow> i < length as \<Longrightarrow>
     ctrl (write_ctrl as xs p) (act_name (as ! i)) = xs ! i"
proof (induction as arbitrary: xs p i)
  case Nil
  then show ?case by simp
next
  case (Cons a as)
  then obtain x xs' where xs: "xs = x # xs'" by (cases xs) auto
  show ?case
  proof (cases i)
    case 0
    with Cons.prems xs show ?thesis by (simp add: write_ctrl_other)
  next
    case (Suc j)
    with Cons xs show ?thesis by simp
  qed
qed

lemma wired_names:
  assumes "wired w e"
  shows "map act_name (map the (actuators e))
           = map (actuator_name (control e)) (actuated_joints e)"
proof -
  have "list_all2 (\<lambda>act joint. \<exists>x. act = Some x \<and> act_name x = actuator_name (control e) joint)
          (actuators e) (actuated_joints e)"
    using resolve_actuators_names [of w "control e" "actuated_joints e"] wiredD(1,2) [OF assms]
    by simp
  then show ?thesis
    by (induction rule: list_all2_induct) auto
qed

lemma actuator_name_distinct:
  "distinct (map (actuator_name c) joints) = distinct joints"
  by (simp add: distinct_map inj_on_def actuator_name_def)

lemma observations_ok_step:
  assumes "step w e action = Inr (e1, ob, info)" and "wired w e" and "engine_shapes w"
  shows "observation_ok w e1 ob"
proof -
  from assms(1) have "get_observation w e1 = Inr ob" by (auto simp: step_Inr)
  from get_observation_unique [OF step_wired [OF assms(2,1)] assms(3) this]
  show ?thesis .
qed

lemma step_returns_explicit:
  assumes "wired w e" and "engine_shapes w"
    and "action ''joints'' = Some targets" and "length targets = length (actuated_joints e)"
  shows "\<exists>ob. step w e action =
           Inr (e\<lparr>physics := eng_step w (write_ctrl (map the (actuators e)) targets (physics e)),
                  curr_time := curr_time e + timestep e\<rparr>, ob, Map.empty)"
proof -
  have ok: "action_ok e action" using assms(3,4) by (simp add: action_ok_def)
  from step_returns [OF assms(1,2) ok] obtain e1 ob where
    s: "step w e action = Inr (e1, ob, get_info)" by blast
  have b: "bind_ctrl (actuators e) targets (physics e)
             = Inr (write_ctrl (map the (actuators e)) targets (physics e))"
    using wiredD(2) [OF assms(1)] assms(4) wired_length [OF assms(1)]
    by (intro bind_ctrl_returns) simp_all
  from s assms(3) b show ?thesis
    by (auto simp: step_Inr get_info_def)
qed

text \<open>
  Claim C6. The list of actuated joints fixes one order for both directions. For an
  instance wired by the constructor whose joints are listed once each, and an action
  with one value per joint, \<^verbatim>\<open>step\<close> returns; the engine is advanced from a state
  in which the control of the actuator found for the \<open>i\<close>-th joint is the \<open>i\<close>-th value
  of the action; and column \<open>i\<close> of the \<^verbatim>\<open>joints\<close> matrix that comes back is read from
  the sensors of that same \<open>i\<close>-th joint. (A joint listed twice would be written twice,
  the later value staying.)
\<close>

theorem dof_order_shared:
  assumes "wired w e" and "engine_shapes w" and "distinct (actuated_joints e)"
    and "action ''joints'' = Some targets"
    and "length targets = length (actuated_joints e)"
    and "i < length (actuated_joints e)"
  shows "\<exists>e1 ob p act. step w e action = Inr (e1, ob, Map.empty)
           \<and> physics e1 = eng_step w p
           \<and> actuated_joints e1 = actuated_joints e
           \<and> actuators e ! i = Some act
           \<and> act_name act = actuator_name (control e) (actuated_joints e ! i)
           \<and> ctrl p (act_name act) = targets ! i
           \<and> joint_column w e1 ob i"
proof -
  let ?as = "map the (actuators e)"
  let ?p = "write_ctrl ?as targets (physics e)"
  let ?e1 = "e\<lparr>physics := eng_step w ?p, curr_time := curr_time e + timestep e\<rparr>"
  from step_returns_explicit [of w e action targets, OF assms(1,2,4,5)] obtain ob where
    s: "step w e action = Inr (?e1, ob, Map.empty)" by blast
  have len: "length (actuators e) = length (actuated_joints e)"
    by (rule wired_length [OF assms(1)])
  have names: "map act_name ?as = map (actuator_name (control e)) (actuated_joints e)"
    by (rule wired_names [OF assms(1)])
  have dist: "distinct (map act_name ?as)"
    using assms(3) by (simp only: names actuator_name_distinct)
  have "actuators e ! i \<noteq> None"
    using wiredD(2) [OF assms(1)] assms(6) len by (metis nth_mem)
  then obtain act where act: "actuators e ! i = Some act" by auto
  then have asi: "?as ! i = act" using assms(6) len by simp
  have nm: "act_name act = actuator_name (control e) (actuated_joints e ! i)"
    using arg_cong [OF names, of "\<lambda>xs. xs ! i"] assms(6) len asi by simp
  have "ctrl ?p (act_name (?as ! i)) = targets ! i"
    using dist assms(5,6) len by (intro write_ctrl_nth) simp_all
  then have c: "ctrl ?p (act_name act) = targets ! i" by (simp only: asi)
  have "observation_ok w ?e1 ob"
    using observations_ok_step s assms(1,2) by blast
  then have col: "joint_column w ?e1 ob i"
    using assms(6) by (simp add: observation_ok_def list_all_iff)
  from s act nm c col show ?thesis
    by (intro exI [of _ ?e1] exI [of _ ob] exI [of _ ?p] exI [of _ act]) simp
qed


text \<open>In the small world the second value of the action reaches the second actuator.\<close>

theorem dof_order_shared_witness:
  "wired demo_world demo_env \<and> engine_shapes demo_world
   \<and> distinct (actuated_joints demo_env)
   \<and> demo_action ''joints'' = Some [1 / 2, 1 / 4]
   \<and> (\<exists>e1 ob p act. step demo_world demo_env demo_action = Inr (e1, ob, Map.empty)
          \<and> physics e1 = eng_step demo_world p
          \<and> actuators demo_env ! 1 = Some act
          \<and> act_name act = ''actuator_position_joint_RFTarsus2''
          \<and> ctrl p (act_name act) = 1 / 4
          \<and> joint_column demo_world e1 ob 1)"
proof -
  have d: "distinct (actuated_joints demo_env)" by (simp add: demo_env_def)
  have a: "demo_action ''joints'' = Some [1 / 2, 1 / 4]" by (simp add: demo_action_def)
  have l: "length [1 / 2, 1 / 4 :: real] = length (actuated_joints demo_env)"
    by (simp add: demo_env_def)
  have i: "1 < length (actuated_joints demo_env)" by (simp add: demo_env_def)
  have n: "actuator_name (control demo_env) (actuated_joints demo_env ! 1)
             = ''actuator_position_joint_RFTarsus2''"
    by (simp add: demo_env_def actuator_name_def)
  from dof_order_shared [of demo_world demo_env demo_action "[1 / 2, 1 / 4]" 1,
      OF demo_wired demo_shapes d a l i] obtain e1 ob p act where
    "step demo_world demo_env demo_action = Inr (e1, ob, Map.empty)"
    "physics e1 = eng_step demo_world p"
    "actuators demo_env ! 1 = Some act"
    "act_name act = actuator_name (control demo_env) (actuated_joints demo_env ! 1)"
    "ctrl p (act_name act) = [1 / 2, 1 / 4] ! 1"
    "joint_column demo_world e1 ob 1"
    by blast
  then have "\<exists>e1 ob p act. step demo_world demo_env demo_action = Inr (e1, ob, Map.empty)
          \<and> physics e1 = eng_step demo_world p
          \<and> actuators demo_env ! 1 = Some act
          \<and> act_name act = ''actuator_position_joint_RFTarsus2''
          \<and> ctrl p (act_name act) = 1 / 4
          \<and> joint_column demo_world e1 ob 1"
    using n by (intro exI [of _ e1] exI [of _ ob] exI [of _ p] exI [of _ act]) simp
  with demo_wired demo_shapes d a show ?thesis by blast
qed

lemma write_pose_qpos:
  assumes "write_pose acts is joints pose p = Inr p'"
  shows "qpos p' (''Animat/'' @ j) =
     (if (\<exists>i \<in> set is. \<exists>a. acts ! i = Some a \<and> act_joint a = j) \<and> j \<in> set joints
           \<and> pose j \<noteq> None
      then the (pose j) else qpos p (''Animat/'' @ j))"
  using assms
proof (induction "is" arbitrary: p)
  case Nil
  then show ?case by simp
next
  case (Cons i "is")
  from Cons.prems obtain a where a: "i < length acts" "acts ! i = Some a"
    by (auto split: if_splits option.splits)
  let ?p1 = "if act_joint a \<in> set joints then
                  (case pose (act_joint a) of
                     Some angle_0 \<Rightarrow> p\<lparr>qpos := (qpos p)(''Animat/'' @ act_joint a := angle_0)\<rparr>
                   | None \<Rightarrow> p)
                else p"
  from Cons.prems a have rest: "write_pose acts is joints pose ?p1 = Inr p'"
    by simp
  have p1: "qpos ?p1 (''Animat/'' @ j) =
      (if act_joint a = j \<and> j \<in> set joints \<and> pose j \<noteq> None then the (pose j)
       else qpos p (''Animat/'' @ j))"
    by (auto split: option.splits)
  show ?case
    unfolding Cons.IH [OF rest] p1 using a(2) by auto
qed

lemma follows_conventionD:
  assumes "follows_convention e"
  shows "length (actuators e) = length (actuated_joints e)"
    and "None \<notin> set (actuators e)"
    and "(\<exists>i \<in> set [0..<length (actuated_joints e)]. \<exists>a. actuators e ! i = Some a \<and> act_joint a = j)
           \<longleftrightarrow> j \<in> set (actuated_joints e)"
proof -
  from assms have eq: "map (map_option act_joint) (actuators e) = map Some (actuated_joints e)"
    by (simp add: follows_convention_def)
  from arg_cong [OF eq, of length] show len: "length (actuators e) = length (actuated_joints e)"
    by simp
  have nth: "\<And>i. i < length (actuated_joints e) \<Longrightarrow>
                map_option act_joint (actuators e ! i) = Some (actuated_joints e ! i)"
    using arg_cong [OF eq, of "\<lambda>xs. xs ! _"] len by (metis length_map nth_map)
  show "None \<notin> set (actuators e)"
  proof
    assume "None \<in> set (actuators e)"
    then obtain i where "i < length (actuators e)" "actuators e ! i = None"
      by (auto simp: in_set_conv_nth)
    with nth [of i] len show False by simp
  qed
  show "(\<exists>i \<in> set [0..<length (actuated_joints e)]. \<exists>a. actuators e ! i = Some a \<and> act_joint a = j)
           \<longleftrightarrow> j \<in> set (actuated_joints e)"
  proof
    assume "\<exists>i \<in> set [0..<length (actuated_joints e)]. \<exists>a. actuators e ! i = Some a \<and> act_joint a = j"
    then obtain i a where "i < length (actuated_joints e)" "actuators e ! i = Some a"
      "act_joint a = j" by auto
    with nth [of i] show "j \<in> set (actuated_joints e)" by auto
  next
    assume "j \<in> set (actuated_joints e)"
    then obtain i where i: "i < length (actuated_joints e)" "actuated_joints e ! i = j"
      by (auto simp: in_set_conv_nth)
    with nth [of i] obtain a where "actuators e ! i = Some a" "act_joint a = j"
      by (cases "actuators e ! i") auto
    with i(1) show "\<exists>i \<in> set [0..<length (actuated_joints e)]. \<exists>a. actuators e ! i = Some a \<and> act_joint a = j"
      by auto
  qed
qed

lemma write_pose_applies:
  assumes "follows_convention e"
    and "write_pose (actuators e) [0..<length (actuated_joints e)] (actuated_joints e) pose p0
           = Inr p"
  shows "qpos p (''Animat/'' @ j) =
          (case (pose |` set (actuated_joints e)) j of
             Some angle \<Rightarrow> angle
           | None \<Rightarrow> qpos p0 (''Animat/'' @ j))"
  unfolding write_pose_qpos [OF assms(2)] follows_conventionD(3) [OF assms(1)]
  by (auto simp: restrict_map_def split: option.splits)

lemma set_init_pose_applies:
  assumes "follows_convention e"
  shows "\<exists>p. set_init_pose w e pose = Inr (e\<lparr>physics := p\<rparr>)"
proof -
  have "\<forall>i \<in> set [0..<length (actuated_joints e)]. i < length (actuators e)"
    using follows_conventionD(1) [OF assms] by simp
  with write_pose_returns [OF follows_conventionD(2) [OF assms]] obtain p where
    p: "write_pose (actuators e) [0..<length (actuated_joints e)] (actuated_joints e) pose
          (eng_reset w (physics e)) = Inr p"
    by blast
  then show ?thesis by (auto simp: set_init_pose_def sbind_def)
qed

lemma follows_convention_update:
  "follows_convention (e\<lparr>physics := p\<rparr>) = follows_convention e"
  "follows_convention (e\<lparr>curr_time := t\<rparr>) = follows_convention e"
  by (simp_all add: follows_convention_def)

lemma load_init_pose_Inr:
  "load_init_pose w a = Inr pose \<Longrightarrow>
     pose = (\<lambda>k. map_option deg2rad (pose_file w (arg_init_pose a) k))
              |` set (arg_actuated_joints a)"
  by (auto simp: load_init_pose_def split: if_splits)

lemma pose_facts:
  assumes "follows_convention e"
  shows "(fst (init w s a) = Inr e \<longrightarrow>
       init_pose e = (\<lambda>k. map_option deg2rad (pose_file w (arg_init_pose a) k))
                       |` set (arg_actuated_joints a)
       \<and> (\<exists>e0 :: env. \<forall>joint. qpos (physics e) (''Animat/'' @ joint) =
             (case init_pose e joint of
                Some angle \<Rightarrow> angle
              | None \<Rightarrow> qpos (eng_reset w (physics e0)) (''Animat/'' @ joint))))
   \<and> (\<forall>pose. \<exists>e1. set_init_pose w e pose = Inr e1)
   \<and> (\<forall>e1 ob info. reset w e = Inr (e1, ob, info) \<longrightarrow>
         init_pose e1 = init_pose e
         \<and> (\<forall>joint. qpos (physics e1) (''Animat/'' @ joint) =
              (case (init_pose e |` set (actuated_joints e)) joint of
                 Some angle \<Rightarrow> angle
               | None \<Rightarrow> qpos (eng_reset w (eng_reset w (physics e))) (''Animat/'' @ joint))))"
proof (intro conjI impI allI)
  assume ok: "fst (init w s a) = Inr e"
  from load_init_pose_Inr [OF init_fields(13) [OF ok]]
  show loaded: "init_pose e = (\<lambda>k. map_option deg2rad (pose_file w (arg_init_pose a) k))
                       |` set (arg_actuated_joints a)" .
  from ok obtain rc tc pc s' e0 p where
    e0: "wire w s' a rc tc pc = Inr e0"
    "write_pose (actuators e0) [0..<length (actuated_joints e0)] (actuated_joints e0)
             (init_pose e0) (eng_reset w (physics e0)) = Inr p"
    "e = e0\<lparr>physics := p\<rparr>"
    by (auto simp: init_Inr init_rest_Inr)
  have conv0: "follows_convention e0"
    using assms e0(3) by (simp add: follows_convention_update)
  have q: "\<forall>j. qpos p (''Animat/'' @ j) =
          (case (init_pose e0 |` set (actuated_joints e0)) j of
             Some angle \<Rightarrow> angle
           | None \<Rightarrow> qpos (eng_reset w (physics e0)) (''Animat/'' @ j))"
    using write_pose_applies [OF conv0 e0(2)] by blast
  have "init_pose e0 |` set (actuated_joints e0) = init_pose e"
    using loaded e0(3) init_fields(2) [OF ok] by simp
  with q e0(3) have "\<forall>joint. qpos (physics e) (''Animat/'' @ joint) =
             (case init_pose e joint of
                Some angle \<Rightarrow> angle
              | None \<Rightarrow> qpos (eng_reset w (physics e0)) (''Animat/'' @ joint))"
    by simp
  then show "\<exists>e0 :: env. \<forall>joint. qpos (physics e) (''Animat/'' @ joint) =
             (case init_pose e joint of
                Some angle \<Rightarrow> angle
              | None \<Rightarrow> qpos (eng_reset w (physics e0)) (''Animat/'' @ joint))"
    by (rule exI [where x = e0])
next
  fix pose
  from set_init_pose_applies [OF assms, of w pose]
  show "\<exists>e1. set_init_pose w e pose = Inr e1" by blast
next
  fix e1 ob info
  assume r: "reset w e = Inr (e1, ob, info)"
  then show "init_pose e1 = init_pose e" by (auto simp: reset_Inr)
next
  fix e1 ob info joint
  assume r: "reset w e = Inr (e1, ob, info)"
  then obtain p where p:
    "write_pose (actuators e) [0..<length (actuated_joints e)] (actuated_joints e)
             (init_pose e) (eng_reset w (eng_reset w (physics e))) = Inr p"
    "physics e1 = p"
    by (auto simp: reset_Inr)
  show "qpos (physics e1) (''Animat/'' @ joint) =
              (case (init_pose e |` set (actuated_joints e)) joint of
                 Some angle \<Rightarrow> angle
               | None \<Rightarrow> qpos (eng_reset w (eng_reset w (physics e))) (''Animat/'' @ joint))"
    unfolding p(2) by (rule write_pose_applies [OF assms p(1)])
qed

lemma demo_convention: "follows_convention demo_env"
  by (simp add: follows_convention_def demo_env_def)

lemma demo_drifted_wired: "wired demo_world demo_drifted"
  using demo_wired by (simp add: demo_drifted_def wired_update)

lemma demo_drifted_convention: "follows_convention demo_drifted"
  using demo_convention by (simp add: demo_drifted_def follows_convention_update)

text \<open>
  Claim C7. For an instance whose \<open>i\<close>-th actuator drives the \<open>i\<close>-th actuated joint: the
  pose kept by the constructor is the pose file, in radians, restricted to the actuated
  joints; after construction every joint with an angle in that pose sits at this angle
  and every other joint where a reset of the engine leaves it; applying a pose never
  raises, whatever joints the pose lacks; and every \<^verbatim>\<open>reset\<close> keeps the pose and applies
  it again on top of the reset engine state. A \<^verbatim>\<open>reset\<close> of an instance wired by the
  constructor does return.
\<close>

theorem initial_pose_applied:
  assumes "follows_convention e"
  shows "(fst (init w s a) = Inr e \<longrightarrow>
       init_pose e = (\<lambda>k. map_option deg2rad (pose_file w (arg_init_pose a) k))
                       |` set (arg_actuated_joints a)
       \<and> (\<exists>e0 :: env. \<forall>joint. qpos (physics e) (''Animat/'' @ joint) =
             (case init_pose e joint of
                Some angle \<Rightarrow> angle
              | None \<Rightarrow> qpos (eng_reset w (physics e0)) (''Animat/'' @ joint))))
   \<and> (\<forall>pose. \<exists>e1. set_init_pose w e pose = Inr e1)
   \<and> (\<forall>e1 ob info. reset w e = Inr (e1, ob, info) \<longrightarrow>
         init_pose e1 = init_pose e
         \<and> (\<forall>joint. qpos (physics e1) (''Animat/'' @ joint) =
              (case (init_pose e |` set (actuated_joints e)) joint of
                 Some angle \<Rightarrow> angle
               | None \<Rightarrow> qpos (eng_reset w (eng_reset w (physics e))) (''Animat/'' @ joint))))
   \<and> (wired w e \<and> engine_shapes w \<longrightarrow>
         (\<exists>e1 ob. reset w e = Inr (e1, ob, Map.empty)
            \<and> init_pose e1 = init_pose e
            \<and> (\<forall>joint. qpos (physics e1) (''Animat/'' @ joint) =
                 (case (init_pose e |` set (actuated_joints e)) joint of
                    Some angle \<Rightarrow> angle
                  | None \<Rightarrow> qpos (eng_reset w (eng_reset w (physics e)))
                              (''Animat/'' @ joint)))))"
proof -
  note facts = pose_facts [OF assms, of w s a]
  have "wired w e \<and> engine_shapes w \<longrightarrow>
         (\<exists>e1 ob. reset w e = Inr (e1, ob, Map.empty)
            \<and> init_pose e1 = init_pose e
            \<and> (\<forall>joint. qpos (physics e1) (''Animat/'' @ joint) =
                 (case (init_pose e |` set (actuated_joints e)) joint of
                    Some angle \<Rightarrow> angle
                  | None \<Rightarrow> qpos (eng_reset w (eng_reset w (physics e)))
                              (''Animat/'' @ joint))))"
  proof
    assume "wired w e \<and> engine_shapes w"
    then obtain e1 ob where r: "reset w e = Inr (e1, ob, Map.empty)"
      using reset_returns [of w e] by (auto simp: get_info_def)
    with facts show "\<exists>e1 ob. reset w e = Inr (e1, ob, Map.empty)
            \<and> init_pose e1 = init_pose e
            \<and> (\<forall>joint. qpos (physics e1) (''Animat/'' @ joint) =
                 (case (init_pose e |` set (actuated_joints e)) joint of
                    Some angle \<Rightarrow> angle
                  | None \<Rightarrow> qpos (eng_reset w (eng_reset w (physics e)))
                              (''Animat/'' @ joint)))"
      by blast
  qed
  with facts show ?thesis by blast
qed

text \<open>
  In the small world the pose file sets one actuated joint and one joint that is not
  actuated. The latter is filtered out, the former is posed, and the actuated joint that
  the file lacks is left at the engine's zero; a reset of an instance whose joints have
  all drifted to 7 brings both back.
\<close>

theorem initial_pose_applied_witness:
  "follows_convention demo_env
   \<and> fst (init demo_world demo_store demo_args) = Inr demo_env
   \<and> pose_file demo_world ''default'' ''joint_LFCoxa'' = Some 45
   \<and> init_pose demo_env ''joint_LFCoxa'' = None
   \<and> init_pose demo_env ''joint_RFCoxa'' = Some (deg2rad 30)
   \<and> init_pose demo_env ''joint_RFTarsus2'' = None
   \<and> (\<exists>e1. set_init_pose demo_world demo_env Map.empty = Inr e1)
   \<and> follows_convention demo_drifted \<and> wired demo_world demo_drifted
   \<and> engine_shapes demo_world
   \<and> qpos (physics demo_drifted) ''Animat/joint_RFCoxa'' = 7
   \<and> qpos (physics demo_drifted) ''Animat/joint_RFTarsus2'' = 7
   \<and> (\<exists>e1 ob. reset demo_world demo_drifted = Inr (e1, ob, Map.empty)
         \<and> qpos (physics e1) ''Animat/joint_RFCoxa'' = deg2rad 30
         \<and> qpos (physics e1) ''Animat/joint_RFTarsus2'' = 0)"
proof -
  have ok: "fst (init demo_world demo_store demo_args) = Inr demo_env"
    by (simp add: demo_init)
  note th = initial_pose_applied [OF demo_convention, of demo_world demo_store demo_args]
  from th ok have pose:
    "init_pose demo_env = (\<lambda>k. map_option deg2rad (pose_file demo_world (arg_init_pose demo_args) k))
                       |` set (arg_actuated_joints demo_args)"
    by blast
  have p1: "init_pose demo_env ''joint_LFCoxa'' = None"
    unfolding pose by (simp add: demo_args_def restrict_map_def)
  have p2: "init_pose demo_env ''joint_RFCoxa'' = Some (deg2rad 30)"
    unfolding pose by (simp add: demo_args_def restrict_map_def demo_world_def)
  have p3: "init_pose demo_env ''joint_RFTarsus2'' = None"
    unfolding pose by (simp add: demo_args_def restrict_map_def demo_world_def)
  from th have noerr: "\<exists>e1. set_init_pose demo_world demo_env Map.empty = Inr e1"
    by blast
  from initial_pose_applied [OF demo_drifted_convention, of demo_world demo_store demo_args]
    demo_drifted_wired demo_shapes
  obtain e1 ob where r: "reset demo_world demo_drifted = Inr (e1, ob, Map.empty)"
    and q: "\<forall>joint. qpos (physics e1) (''Animat/'' @ joint) =
        (case (init_pose demo_drifted |` set (actuated_joints demo_drifted)) joint of
           Some angle \<Rightarrow> angle
         | None \<Rightarrow> qpos (eng_reset demo_world (eng_reset demo_world (physics demo_drifted)))
                     (''Animat/'' @ joint))"
    by blast
  have ip: "init_pose demo_drifted = init_pose demo_env"
    "actuated_joints demo_drifted = [''joint_RFCoxa'', ''joint_RFTarsus2'']"
    by (simp_all add: demo_drifted_def demo_env_def)
  have q1: "qpos (physics e1) ''Animat/joint_RFCoxa'' = deg2rad 30"
    using spec [OF q, of "''joint_RFCoxa''"] p2 ip by simp
  have "qpos (eng_reset demo_world (eng_reset demo_world (physics demo_drifted)))
          ''Animat/joint_RFTarsus2'' = 0"
    by (simp add: demo_world_def)
  then have q2: "qpos (physics e1) ''Animat/joint_RFTarsus2'' = 0"
    using spec [OF q, of "''joint_RFTarsus2''"] p3 ip by simp
  have f: "pose_file demo_world ''default'' ''joint_LFCoxa'' = Some 45"
    by (simp add: demo_world_def)
  have d: "qpos (physics demo_drifted) ''Animat/joint_RFCoxa'' = 7"
    "qpos (physics demo_drifted) ''Animat/joint_RFTarsus2'' = 7"
    by (simp_all add: demo_drifted_def)
  have "\<exists>e1 ob. reset demo_world demo_drifted = Inr (e1, ob, Map.empty)
         \<and> qpos (physics e1) ''Animat/joint_RFCoxa'' = deg2rad 30
         \<and> qpos (physics e1) ''Animat/joint_RFTarsus2'' = 0"
    using r q1 q2 by blast
  with demo_convention ok f p1 p2 p3 noerr demo_drifted_convention demo_drifted_wired
    demo_shapes d show ?thesis by blast
qed













lemma render_mode_unknown:
  "default_render_config m = None \<longleftrightarrow> m \<noteq> ''saved'' \<and> m \<noteq> ''headless''"
  by (simp add: default_render_config_def)

lemma terrain_unknown:
  "default_terrain_config t = None \<longleftrightarrow>
     t \<noteq> ''flat'' \<and> t \<noteq> ''gapped'' \<and> t \<noteq> ''blocks'' \<and> t \<noteq> ''ball''"
  by (simp add: default_terrain_config_def)

lemma assemble_unknown_mode:
  "default_render_config (arg_render_mode a) = None \<Longrightarrow>
     fst (assemble_configs s a) = Inl (KeyError (arg_render_mode a))"
  by (simp add: assemble_configs_def)

lemma assemble_unknown_terrain:
  "default_render_config (arg_render_mode a) \<noteq> None \<Longrightarrow>
   default_terrain_config (arg_terrain a) = None \<Longrightarrow>
     fst (assemble_configs s a) = Inl (KeyError (arg_terrain a))"
  by (auto simp: assemble_configs_def Let_def split: option.splits prod.splits)

lemma assemble_known:
  "default_render_config (arg_render_mode a) \<noteq> None \<Longrightarrow>
   default_terrain_config (arg_terrain a) \<noteq> None \<Longrightarrow>
     \<exists>rc tc pc. fst (assemble_configs s a) = Inr (rc, tc, pc)"
  by (auto simp: assemble_configs_def Let_def split: option.splits prod.splits)

lemma init_fst_Inl:
  "fst (assemble_configs s a) = Inl err \<Longrightarrow> fst (init w s a) = Inl err"
  by (cases "assemble_configs s a") (auto simp: init_def)

lemma init_fst_Inr:
  "fst (assemble_configs s a) = Inr (rc, tc, pc) \<Longrightarrow>
     fst (init w s a) = init_rest w (snd (assemble_configs s a)) a rc tc pc"
  by (cases "assemble_configs s a") (auto simp: init_def)

lemma wire_invalid_pose:
  "arg_init_pose a \<notin> set metadata_init_pose \<Longrightarrow> wire w s a rc tc pc = Inl ValueError"
  by (simp add: wire_def load_init_pose_def sbind_def Let_def)

lemma wire_ball:
  "arg_init_pose a \<in> set metadata_init_pose \<Longrightarrow> arg_terrain a = ''ball'' \<Longrightarrow>
     wire w s a rc tc pc = Inl NotImplementedError"
  by (simp add: wire_def load_init_pose_def build_terrain_def sbind_def Let_def)

lemma init_rest_Inl: "wire w s a rc tc pc = Inl err \<Longrightarrow> init_rest w s a rc tc pc = Inl err"
  by (simp add: init_rest_def sbind_def)

lemma init_assemble_cases:
  "raises (fst (init w s a)) \<or> (\<exists>rc tc pc. fst (assemble_configs s a) = Inr (rc, tc, pc))"
proof (cases "fst (assemble_configs s a)")
  case (Inl err)
  then show ?thesis by (simp add: init_fst_Inl raises_def)
next
  case (Inr cfg)
  then show ?thesis by (cases cfg) auto
qed

text \<open>
  Claim C2. A render mode other than \<^verbatim>\<open>'saved'\<close> and \<^verbatim>\<open>'headless'\<close> makes the
  constructor raise \<^verbatim>\<open>KeyError\<close>; so does a terrain that is none of the four variants
  (the constructor raises in any case, and with this \<^verbatim>\<open>KeyError\<close> when the render mode
  is known); a pose variant outside \<^verbatim>\<open>_metadata['init_pose']\<close> makes it raise, with
  \<^verbatim>\<open>ValueError\<close> when render mode and terrain are known; the \<^verbatim>\<open>'ball'\<close> terrain makes it
  raise, with \<^verbatim>\<open>NotImplementedError\<close> when render mode and pose are known. And
  \<^verbatim>\<open>render\<close> on an instance in any mode other than \<^verbatim>\<open>'saved'\<close> and \<^verbatim>\<open>'headless'\<close>
  raises \<^verbatim>\<open>NotImplementedError\<close> at its first use, when no frame was recorded yet.
\<close>

theorem unknown_variants_fail:
  "(arg_render_mode a \<noteq> ''saved'' \<and> arg_render_mode a \<noteq> ''headless'' \<longrightarrow>
      fst (init w s a) = Inl (KeyError (arg_render_mode a)))
   \<and> (arg_terrain a \<noteq> ''flat'' \<and> arg_terrain a \<noteq> ''gapped'' \<and> arg_terrain a \<noteq> ''blocks''
        \<and> arg_terrain a \<noteq> ''ball'' \<longrightarrow>
      raises (fst (init w s a))
      \<and> (arg_render_mode a = ''saved'' \<or> arg_render_mode a = ''headless'' \<longrightarrow>
           fst (init w s a) = Inl (KeyError (arg_terrain a))))
   \<and> (arg_init_pose a \<notin> set metadata_init_pose \<longrightarrow>
      raises (fst (init w s a))
      \<and> (default_render_config (arg_render_mode a) \<noteq> None
           \<and> default_terrain_config (arg_terrain a) \<noteq> None \<longrightarrow>
           fst (init w s a) = Inl ValueError))
   \<and> (arg_terrain a = ''ball'' \<longrightarrow>
      raises (fst (init w s a))
      \<and> (default_render_config (arg_render_mode a) \<noteq> None
           \<and> arg_init_pose a \<in> set metadata_init_pose \<longrightarrow>
           fst (init w s a) = Inl NotImplementedError))
   \<and> (render_mode e \<noteq> ''saved'' \<and> render_mode e \<noteq> ''headless''
        \<and> eff_render_interval e = Some interval \<and> last_render_time e = None \<longrightarrow>
      render w st e = Inl NotImplementedError)"
proof (intro conjI impI)
  assume "arg_render_mode a \<noteq> ''saved'' \<and> arg_render_mode a \<noteq> ''headless''"
  then have "default_render_config (arg_render_mode a) = None"
    by (simp add: render_mode_unknown)
  then show "fst (init w s a) = Inl (KeyError (arg_render_mode a))"
    by (intro init_fst_Inl assemble_unknown_mode)
next
  assume "arg_terrain a \<noteq> ''flat'' \<and> arg_terrain a \<noteq> ''gapped'' \<and> arg_terrain a \<noteq> ''blocks''
        \<and> arg_terrain a \<noteq> ''ball''"
  then have t: "default_terrain_config (arg_terrain a) = None"
    by (simp add: terrain_unknown)
  show "raises (fst (init w s a))"
  proof (cases "default_render_config (arg_render_mode a)")
    case None
    then show ?thesis
      by (simp add: init_fst_Inl [OF assemble_unknown_mode] raises_def)
  next
    case (Some rd)
    then show ?thesis
      using t by (simp add: init_fst_Inl [OF assemble_unknown_terrain] raises_def)
  qed
  assume "arg_render_mode a = ''saved'' \<or> arg_render_mode a = ''headless''"
  then have "default_render_config (arg_render_mode a) \<noteq> None"
    by (simp add: render_mode_unknown)
  from init_fst_Inl [OF assemble_unknown_terrain [OF this t]]
  show "fst (init w s a) = Inl (KeyError (arg_terrain a))" .
next
  assume p: "arg_init_pose a \<notin> set metadata_init_pose"
  show "raises (fst (init w s a))"
    using init_assemble_cases [of w s a]
    by (auto simp: init_fst_Inr init_rest_Inl [OF wire_invalid_pose [OF p]] raises_def)
  assume "default_render_config (arg_render_mode a) \<noteq> None
           \<and> default_terrain_config (arg_terrain a) \<noteq> None"
  then obtain rc tc pc where "fst (assemble_configs s a) = Inr (rc, tc, pc)"
    using assemble_known [of a s] by blast
  then show "fst (init w s a) = Inl ValueError"
    by (simp add: init_fst_Inr init_rest_Inl [OF wire_invalid_pose [OF p]])
next
  assume b: "arg_terrain a = ''ball''"
  show "raises (fst (init w s a))"
  proof (cases "arg_init_pose a \<in> set metadata_init_pose")
    case True
    show ?thesis
      using init_assemble_cases [of w s a]
      by (auto simp: init_fst_Inr init_rest_Inl [OF wire_ball [OF True b]] raises_def)
  next
    case False
    show ?thesis
      using init_assemble_cases [of w s a]
      by (auto simp: init_fst_Inr init_rest_Inl [OF wire_invalid_pose [OF False]] raises_def)
  qed
  assume k: "default_render_config (arg_render_mode a) \<noteq> None
           \<and> arg_init_pose a \<in> set metadata_init_pose"
  have "default_terrain_config (arg_terrain a) \<noteq> None"
    using b by (simp add: terrain_unknown)
  with k obtain rc tc pc where "fst (assemble_configs s a) = Inr (rc, tc, pc)"
    using assemble_known [of a s] by blast
  then show "fst (init w s a) = Inl NotImplementedError"
    using k b by (simp add: init_fst_Inr init_rest_Inl [OF wire_ball])
next
  assume "render_mode e \<noteq> ''saved'' \<and> render_mode e \<noteq> ''headless''
        \<and> eff_render_interval e = Some interval \<and> last_render_time e = None"
  then show "render w st e = Inl NotImplementedError"
    by (simp add: render_def)
qed

text \<open>Each of the five failures in the small world.\<close>

theorem unknown_variants_fail_witness:
  "fst (init demo_world demo_store (demo_args\<lparr>arg_render_mode := ''window''\<rparr>))
     = Inl (KeyError ''window'')
   \<and> fst (init demo_world demo_store (demo_args\<lparr>arg_terrain := ''moon''\<rparr>))
       = Inl (KeyError ''moon'')
   \<and> fst (init demo_world demo_store (demo_args\<lparr>arg_init_pose := ''sit''\<rparr>)) = Inl ValueError
   \<and> fst (init demo_world demo_store (demo_args\<lparr>arg_terrain := ''ball''\<rparr>))
       = Inl NotImplementedError
   \<and> render_mode demo_viewer = ''viewer'' \<and> last_render_time demo_viewer = None
   \<and> render demo_world demo_store1 demo_viewer = Inl NotImplementedError"
proof -
  have "fst (init demo_world demo_store (demo_args\<lparr>arg_render_mode := ''window''\<rparr>))
     = Inl (KeyError ''window'')"
    using unknown_variants_fail [where a = "demo_args\<lparr>arg_render_mode := ''window''\<rparr>"
        and w = demo_world and s = demo_store]
    by simp
  moreover have "fst (init demo_world demo_store (demo_args\<lparr>arg_terrain := ''moon''\<rparr>))
       = Inl (KeyError ''moon'')"
    using unknown_variants_fail [where a = "demo_args\<lparr>arg_terrain := ''moon''\<rparr>"
        and w = demo_world and s = demo_store]
    by (simp add: demo_args_def)
  moreover have "fst (init demo_world demo_store (demo_args\<lparr>arg_init_pose := ''sit''\<rparr>))
       = Inl ValueError"
    using unknown_variants_fail [where a = "demo_args\<lparr>arg_init_pose := ''sit''\<rparr>"
        and w = demo_world and s = demo_store]
    by (simp add: demo_args_def metadata_init_pose_def default_render_config_def
        default_terrain_config_def)
  moreover have "fst (init demo_world demo_store (demo_args\<lparr>arg_terrain := ''ball''\<rparr>))
       = Inl NotImplementedError"
    using unknown_variants_fail [where a = "demo_args\<lparr>arg_terrain := ''ball''\<rparr>"
        and w = demo_world and s = demo_store]
    by (simp add: demo_args_def metadata_init_pose_def default_render_config_def)
  moreover have "render demo_world demo_store1 demo_viewer = Inl NotImplementedError"
    using unknown_variants_fail [where e = demo_viewer and interval = "1 / 30"
        and w = demo_world and st = demo_store1]
    by (simp add: demo_viewer_def demo_env_def)
  moreover have "render_mode demo_viewer = ''viewer''" "last_render_time demo_viewer = None"
    by (simp_all add: demo_viewer_def demo_env_def)
  ultimately show ?thesis by simp
qed

lemma steps_preserves:
  "steps w e actions = Inr e1 \<Longrightarrow> wired w e \<Longrightarrow>
     wired w e1 \<and> actuated_joints e1 = actuated_joints e"
proof (induction actions arbitrary: e)
  case Nil
  then show ?case by simp
next
  case (Cons action actions)
  from Cons.prems(1) obtain e' ob info where
    s: "step w e action = Inr (e', ob, info)" "steps w e' actions = Inr e1"
    by (auto simp: sbind_Inr_iff)
  have w': "wired w e'" by (rule step_wired [OF Cons.prems(2) s(1)])
  have "actuated_joints e' = actuated_joints e" using s(1) by (auto simp: step_Inr)
  with Cons.IH [OF s(2) w'] show ?case by simp
qed

text \<open>
  Claim C4. The simulation clock \<^verbatim>\<open>curr_time\<close> is zero right after construction. A
  \<^verbatim>\<open>reset\<close> of an instance wired by the constructor returns, with the clock at zero,
  wherever the clock was before. A \<^verbatim>\<open>step\<close> with a value for each joint returns with
  the clock advanced by exactly the configured timestep. And \<open>N\<close> such steps after a
  reset return with the clock at \<open>N\<close> times the timestep. The same values hold for every
  reset, step or run of steps that returns at all. Python floats are taken as real
  numbers here, so the rounding that the claim's tolerance allows for is absent.
\<close>

theorem simulation_clock:
  "(fst (init w s a) = Inr e0 \<longrightarrow> curr_time e0 = 0 \<and> timestep e0 = arg_timestep a)
   \<and> (wired w e \<and> engine_shapes w \<longrightarrow>
        (\<exists>e1 ob. reset w e = Inr (e1, ob, Map.empty) \<and> curr_time e1 = 0
           \<and> timestep e1 = timestep e \<and> wired w e1))
   \<and> (wired w e \<and> engine_shapes w \<and> action_ok e action \<longrightarrow>
        (\<exists>e2 ob. step w e action = Inr (e2, ob, Map.empty)
           \<and> curr_time e2 = curr_time e + timestep e
           \<and> timestep e2 = timestep e \<and> wired w e2))
   \<and> (wired w e \<and> engine_shapes w \<and> list_all (action_ok e) actions \<longrightarrow>
        (\<exists>e1 ob e3. reset w e = Inr (e1, ob, Map.empty) \<and> steps w e1 actions = Inr e3
           \<and> curr_time e3 = real (length actions) * timestep e))
   \<and> (reset w e = Inr (r1, ob1, info1) \<longrightarrow> curr_time r1 = 0 \<and> timestep r1 = timestep e)
   \<and> (step w e action = Inr (r2, ob2, info2) \<longrightarrow>
        curr_time r2 = curr_time e + timestep e \<and> timestep r2 = timestep e)
   \<and> (steps w e actions = Inr r3 \<longrightarrow>
        curr_time r3 = curr_time e + real (length actions) * timestep e)"
proof (intro conjI impI)
  assume "fst (init w s a) = Inr e0"
  then show "curr_time e0 = 0" "timestep e0 = arg_timestep a"
    by (simp_all add: init_fields)
next
  assume "wired w e \<and> engine_shapes w"
  then obtain e1 ob where r: "reset w e = Inr (e1, ob, Map.empty)" "wired w e1"
    using reset_returns [of w e] by (auto simp: get_info_def)
  from r(1) have "curr_time e1 = 0" "timestep e1 = timestep e" by (auto simp: reset_Inr)
  with r show "\<exists>e1 ob. reset w e = Inr (e1, ob, Map.empty) \<and> curr_time e1 = 0
           \<and> timestep e1 = timestep e \<and> wired w e1"
    by blast
next
  assume "wired w e \<and> engine_shapes w \<and> action_ok e action"
  then obtain e2 ob where st: "step w e action = Inr (e2, ob, Map.empty)" "wired w e2"
    using step_returns [of w e action] by (auto simp: get_info_def)
  from st(1) have "curr_time e2 = curr_time e + timestep e" "timestep e2 = timestep e"
    by (auto simp: step_Inr)
  with st show "\<exists>e2 ob. step w e action = Inr (e2, ob, Map.empty)
           \<and> curr_time e2 = curr_time e + timestep e
           \<and> timestep e2 = timestep e \<and> wired w e2"
    by blast
next
  assume h: "wired w e \<and> engine_shapes w \<and> list_all (action_ok e) actions"
  then obtain e1 ob where r: "reset w e = Inr (e1, ob, Map.empty)" "wired w e1"
    "actuated_joints e1 = actuated_joints e"
    using reset_returns [of w e] by (auto simp: get_info_def)
  from r(1) have t1: "curr_time e1 = 0" "timestep e1 = timestep e" by (auto simp: reset_Inr)
  have "\<forall>action \<in> set actions. action_ok e1 action"
    using h action_ok_cong [OF r(3)] by (simp add: list_all_iff)
  with steps_returns [of w e1 actions] h r(2) obtain e3 where
    st: "steps w e1 actions = Inr e3" by blast
  from steps_clock [OF st] t1 have "curr_time e3 = real (length actions) * timestep e"
    by simp
  with r(1) st show "\<exists>e1 ob e3. reset w e = Inr (e1, ob, Map.empty)
           \<and> steps w e1 actions = Inr e3
           \<and> curr_time e3 = real (length actions) * timestep e"
    by blast
next
  assume "reset w e = Inr (r1, ob1, info1)"
  then show "curr_time r1 = 0" "timestep r1 = timestep e"
    by (auto simp: reset_Inr)
next
  assume "step w e action = Inr (r2, ob2, info2)"
  then show "curr_time r2 = curr_time e + timestep e" "timestep r2 = timestep e"
    by (auto simp: step_Inr)
next
  assume "steps w e actions = Inr r3"
  from steps_clock [OF this]
  show "curr_time r3 = curr_time e + real (length actions) * timestep e" by simp
qed

text \<open>
  In the small world, from an instance whose clock stands at three timesteps: a reset
  puts it back to zero and two steps after it bring it to two timesteps; a step without
  a reset brings it to four.
\<close>

theorem simulation_clock_witness:
  "fst (init demo_world demo_store demo_args) = Inr demo_env \<and> curr_time demo_env = 0
   \<and> wired demo_world demo_drifted \<and> engine_shapes demo_world
   \<and> curr_time demo_drifted = 3 / 10000
   \<and> list_all (action_ok demo_drifted) [demo_action, demo_action]
   \<and> (\<exists>e1 ob e3. reset demo_world demo_drifted = Inr (e1, ob, Map.empty)
         \<and> curr_time e1 = 0
         \<and> steps demo_world e1 [demo_action, demo_action] = Inr e3
         \<and> curr_time e3 = 2 * (1 / 10000))
   \<and> (\<exists>e2 ob. step demo_world demo_drifted demo_action = Inr (e2, ob, Map.empty)
         \<and> curr_time e2 = 4 / 10000)"
proof -
  have ok: "fst (init demo_world demo_store demo_args) = Inr demo_env"
    by (simp add: demo_init)
  have aok: "action_ok demo_drifted demo_action"
    by (simp add: action_ok_def demo_action_def demo_drifted_def demo_env_def)
  then have la: "list_all (action_ok demo_drifted) [demo_action, demo_action]" by simp
  have ts: "timestep demo_drifted = 1 / 10000" "curr_time demo_drifted = 3 / 10000"
    by (simp_all add: demo_drifted_def demo_env_def)
  note th = simulation_clock [where w = demo_world and s = demo_store and a = demo_args
      and ?e0.0 = demo_env and e = demo_drifted and action = demo_action
      and actions = "[demo_action, demo_action]"]
  from th ok have c0: "curr_time demo_env = 0" by blast
  from th demo_drifted_wired demo_shapes la obtain e1 ob e3 where
    r: "reset demo_world demo_drifted = Inr (e1, ob, Map.empty)"
    "steps demo_world e1 [demo_action, demo_action] = Inr e3"
    "curr_time e3 = real (length [demo_action, demo_action]) * timestep demo_drifted"
    by blast
  from th demo_drifted_wired demo_shapes obtain e1' ob' where
    r': "reset demo_world demo_drifted = Inr (e1', ob', Map.empty)" "curr_time e1' = 0"
    by blast
  from r(1) r'(1) have "e1' = e1" by simp
  with r'(2) have c1: "curr_time e1 = 0" by simp
  from r(3) ts have c3: "curr_time e3 = 2 * (1 / 10000)" by simp
  from th demo_drifted_wired demo_shapes aok obtain e2 ob2 where
    st: "step demo_world demo_drifted demo_action = Inr (e2, ob2, Map.empty)"
    "curr_time e2 = curr_time demo_drifted + timestep demo_drifted"
    by blast
  from st(2) ts have c2: "curr_time e2 = 4 / 10000" by simp
  have a: "\<exists>e1 ob e3. reset demo_world demo_drifted = Inr (e1, ob, Map.empty)
         \<and> curr_time e1 = 0
         \<and> steps demo_world e1 [demo_action, demo_action] = Inr e3
         \<and> curr_time e3 = 2 * (1 / 10000)"
    using r(1,2) c1 c3 by blast
  have b: "\<exists>e2 ob. step demo_world demo_drifted demo_action = Inr (e2, ob, Map.empty)
         \<and> curr_time e2 = 4 / 10000"
    using st(1) c2 by blast
  from ok c0 demo_drifted_wired demo_shapes ts(2) la a b show ?thesis by blast
qed

lemma py_div_Inr:
  "py_div x y = Inr q \<Longrightarrow> \<exists>a b. x = Num a \<and> y = Num b \<and> b \<noteq> 0 \<and> q = a / b"
  by (cases x; cases y) (auto split: if_splits)

lemma render_interval_Inr:
  assumes "render_interval mode rc = Inr iv" and "mode \<noteq> ''headless''"
  shows "\<exists>playspeed fps. rc ''playspeed'' = Some (Num playspeed) \<and> rc ''fps'' = Some (Num fps)
           \<and> fps \<noteq> 0 \<and> iv = Some (playspeed / fps)"
proof -
  from assms obtain x y q where
    "lookup rc ''playspeed'' = Inr x" "lookup rc ''fps'' = Inr y" "py_div x y = Inr q"
    "iv = Some q"
    by (auto simp: render_interval_def sbind_Inr_iff)
  moreover from this obtain a b where "x = Num a" "y = Num b" "b \<noteq> 0" "q = a / b"
    using py_div_Inr by blast
  ultimately show ?thesis
    by (auto simp: lookup_def split: option.splits)
qed

lemma init_interval:
  assumes "fst (init w s a) = Inr e"
  shows "render_interval (arg_render_mode a) (cells (snd (init w s a)) (render_config e))
           = Inr (eff_render_interval e)"
proof -
  from assms obtain rc tc pc s' where
    asm: "assemble_configs s a = (Inr (rc, tc, pc), s')"
    and rest: "init_rest w s' a rc tc pc = Inr e"
    by (auto simp: init_Inr)
  from rest obtain e0 p where e0: "wire w s' a rc tc pc = Inr e0" "e = e0\<lparr>physics := p\<rparr>"
    by (auto simp: init_rest_Inr)
  have s': "snd (init w s a) = s'" by (simp add: init_snd asm)
  from wire_Inr(2,17) [OF e0(1)] e0(2) show ?thesis
    by (simp add: s')
qed

text \<open>
  Claim C9. In headless mode \<^verbatim>\<open>render\<close> returns the instance unchanged. In recording
  mode, with a window size that is a pair, it returns the instance with one newly
  rasterized frame appended to the buffer and the last render time set to the current
  simulation time exactly when the current time has reached the last render time plus
  the interval (always, when nothing was rendered yet), and unchanged otherwise. The
  interval of an instance constructed in recording mode is the play speed divided by the
  frame rate of its render configuration, and its last render time starts as
  \<^verbatim>\<open>-inf\<close>.
\<close>

theorem render_gate:
  "(render_mode e = ''headless'' \<longrightarrow> render w st e = Inr e)
   \<and> (render_mode e = ''saved'' \<and> eff_render_interval e = Some interval
        \<and> cells st (render_config e) ''window_size'' = Some (Tup [width, height]) \<longrightarrow>
        render w st e =
          Inr (if (case last_render_time e of
                     None \<Rightarrow> True
                   | Some t \<Rightarrow> t + interval \<le> curr_time e)
               then e\<lparr>frames := frames e @ [eng_render w (physics e) width height],
                      last_render_time := Some (curr_time e)\<rparr>
               else e))
   \<and> (fst (init w s a) = Inr e \<and> arg_render_mode a = ''saved'' \<longrightarrow>
        last_render_time e = None
        \<and> (\<exists>playspeed fps.
              cells (snd (init w s a)) (render_config e) ''playspeed'' = Some (Num playspeed)
              \<and> cells (snd (init w s a)) (render_config e) ''fps'' = Some (Num fps)
              \<and> fps \<noteq> 0 \<and> eff_render_interval e = Some (playspeed / fps)))"
proof (intro conjI impI)
  assume "render_mode e = ''headless''"
  then show "render w st e = Inr e" by (simp add: render_def)
next
  assume "render_mode e = ''saved'' \<and> eff_render_interval e = Some interval
        \<and> cells st (render_config e) ''window_size'' = Some (Tup [width, height])"
  then show "render w st e =
          Inr (if (case last_render_time e of
                     None \<Rightarrow> True
                   | Some t \<Rightarrow> t + interval \<le> curr_time e)
               then e\<lparr>frames := frames e @ [eng_render w (physics e) width height],
                      last_render_time := Some (curr_time e)\<rparr>
               else e)"
    by (auto simp: render_def lookup_def sbind_def split: option.splits)
next
  assume h: "fst (init w s a) = Inr e \<and> arg_render_mode a = ''saved''"
  then have ok: "fst (init w s a) = Inr e" by simp
  show "last_render_time e = None" by (rule init_fields(11) [OF ok])
  have "render_interval (arg_render_mode a)
                 (cells (snd (init w s a)) (render_config e)) = Inr (eff_render_interval e)"
    by (rule init_interval [OF ok])
  from render_interval_Inr [OF this] h
  show "\<exists>playspeed fps.
              cells (snd (init w s a)) (render_config e) ''playspeed'' = Some (Num playspeed)
              \<and> cells (snd (init w s a)) (render_config e) ''fps'' = Some (Num fps)
              \<and> fps \<noteq> 0 \<and> eff_render_interval e = Some (playspeed / fps)"
    by simp
qed

text \<open>
  In the small world, at thirty frames per second: the first call records a frame; a
  call half an interval later changes nothing; a call a full interval later records a
  second frame.
\<close>

theorem render_gate_witness:
  "render demo_world demo_store1 (demo_env\<lparr>render_mode := ''headless''\<rparr>)
     = Inr (demo_env\<lparr>render_mode := ''headless''\<rparr>)
   \<and> fst (init demo_world demo_store demo_args) = Inr demo_env
   \<and> eff_render_interval demo_env = Some (1 / 30)
   \<and> last_render_time demo_env = None
   \<and> render demo_world demo_store1 demo_env = Inr demo_recorded
   \<and> frames demo_recorded = [[0]] \<and> last_render_time demo_recorded = Some 0
   \<and> render demo_world demo_store1 (demo_recorded\<lparr>curr_time := 1 / 60\<rparr>)
       = Inr (demo_recorded\<lparr>curr_time := 1 / 60\<rparr>)
   \<and> render demo_world demo_store1 (demo_recorded\<lparr>curr_time := 1 / 30\<rparr>)
       = Inr (demo_recorded\<lparr>curr_time := 1 / 30, frames := [[0], [0]],
                             last_render_time := Some (1 / 30)\<rparr>)"
proof -
  have ok: "fst (init demo_world demo_store demo_args) = Inr demo_env"
    by (simp add: demo_init)
  have ws: "cells demo_store1 9 ''window_size'' = Some (Tup [Num 640, Num 480])"
    by (simp add: demo_store1_def saved_defaults_def)
  have a: "render demo_world demo_store1 (demo_env\<lparr>render_mode := ''headless''\<rparr>)
     = Inr (demo_env\<lparr>render_mode := ''headless''\<rparr>)"
    using render_gate [where e = "demo_env\<lparr>render_mode := ''headless''\<rparr>"
        and w = demo_world and st = demo_store1]
    by simp
  have b: "last_render_time demo_env = None"
    using render_gate [where e = demo_env and w = demo_world and s = demo_store
        and a = demo_args] ok
    by (simp add: demo_args_def)
  have iv: "eff_render_interval demo_env = Some (1 / 30)" by (simp add: demo_env_def)
  have c: "render demo_world demo_store1 demo_env = Inr demo_recorded"
    using render_gate [where e = demo_env and w = demo_world and st = demo_store1
        and interval = "1 / 30" and width = "Num 640" and height = "Num 480"] ws
    by (simp add: demo_env_def demo_recorded_def demo_world_def)
  have d: "render demo_world demo_store1 (demo_recorded\<lparr>curr_time := 1 / 60\<rparr>)
       = Inr (demo_recorded\<lparr>curr_time := 1 / 60\<rparr>)"
    using render_gate [where e = "demo_recorded\<lparr>curr_time := 1 / 60\<rparr>" and w = demo_world
        and st = demo_store1 and interval = "1 / 30" and width = "Num 640"
        and height = "Num 480"] ws
    by (simp add: demo_env_def demo_recorded_def demo_world_def)
  have e: "render demo_world demo_store1 (demo_recorded\<lparr>curr_time := 1 / 30\<rparr>)
       = Inr (demo_recorded\<lparr>curr_time := 1 / 30, frames := [[0], [0]],
                             last_render_time := Some (1 / 30)\<rparr>)"
    using render_gate [where e = "demo_recorded\<lparr>curr_time := 1 / 30\<rparr>" and w = demo_world
        and st = demo_store1 and interval = "1 / 30" and width = "Num 640"
        and height = "Num 480"] ws
    by (simp add: demo_env_def demo_recorded_def demo_world_def)
  have f: "frames demo_recorded = [[0]]" "last_render_time demo_recorded = Some 0"
    by (simp_all add: demo_recorded_def)
  from a ok iv b c d e f show ?thesis by simp
qed

lemma allocated_later:
  "args_allocated s a \<Longrightarrow> next_free s \<le> next_free s' \<Longrightarrow> args_allocated s' a"
  by (simp add: args_allocated_def)

text \<open>
  Claim C10. Whatever the constructor does, and also when it raises, every dictionary
  object that existed before the call has the contents it had: the module's default
  dictionaries and the caller's override dictionaries among them. The bundles of an
  instance that was constructed are new objects, holding the defaults with the caller's
  values taking precedence. A later construction therefore merges into the same
  defaults as the first one did.
\<close>

theorem defaults_never_mutated:
  assumes "args_allocated s a"
  shows "(\<forall>ad < next_free s. cells (snd (init w s a)) ad = cells s ad)
   \<and> next_free s \<le> next_free (snd (init w s a))
   \<and> cells (snd (init w s a)) default_physics_config = cells s default_physics_config
   \<and> (\<forall>m rd. default_render_config m = Some rd \<longrightarrow>
         cells (snd (init w s a)) rd = cells s rd)
   \<and> (\<forall>t td. default_terrain_config t = Some td \<longrightarrow>
         cells (snd (init w s a)) td = cells s td)
   \<and> cells (snd (init w s a)) (arg_render_config a) = cells s (arg_render_config a)
   \<and> cells (snd (init w s a)) (arg_terrain_config a) = cells s (arg_terrain_config a)
   \<and> cells (snd (init w s a)) (arg_physics_config a) = cells s (arg_physics_config a)
   \<and> (fst (init w s a) = Inr e \<longrightarrow>
         next_free s \<le> render_config e \<and> next_free s \<le> terrain_config e
         \<and> next_free s \<le> physics_config e
         \<and> (\<exists>rd td. default_render_config (arg_render_mode a) = Some rd
               \<and> default_terrain_config (arg_terrain a) = Some td
               \<and> (\<forall>k. cells (snd (init w s a)) (render_config e) k =
                     (case cells s (arg_render_config a) k of
                        Some v \<Rightarrow> Some v | None \<Rightarrow> cells s rd k))
               \<and> (\<forall>k. cells (snd (init w s a)) (terrain_config e) k =
                     (case cells s (arg_terrain_config a) k of
                        Some v \<Rightarrow> Some v | None \<Rightarrow> cells s td k))
               \<and> (\<forall>k. cells (snd (init w s a)) (physics_config e) k =
                     (case cells s (arg_physics_config a) k of
                        Some v \<Rightarrow> Some v | None \<Rightarrow> cells s default_physics_config k))))
   \<and> (args_allocated s a2 \<and> fst (init w2 (snd (init w s a)) a2) = Inr e2 \<longrightarrow>
         (\<exists>rd td. default_render_config (arg_render_mode a2) = Some rd
               \<and> default_terrain_config (arg_terrain a2) = Some td
               \<and> cells (snd (init w2 (snd (init w s a)) a2)) (render_config e2)
                   = cells s rd ++ cells s (arg_render_config a2)
               \<and> cells (snd (init w2 (snd (init w s a)) a2)) (terrain_config e2)
                   = cells s td ++ cells s (arg_terrain_config a2)
               \<and> cells (snd (init w2 (snd (init w s a)) a2)) (physics_config e2)
                   = cells s default_physics_config ++ cells s (arg_physics_config a2)))"
proof -
  let ?s' = "snd (init w s a)"
  have asm: "assemble_configs s a = (fst (assemble_configs s a), ?s')"
    by (simp add: init_snd)
  have frame: "\<And>ad. ad < next_free s \<Longrightarrow> cells ?s' ad = cells s ad"
    by (rule assemble_frame [OF asm])
  have nf: "next_free s \<le> next_free ?s'"
    by (rule assemble_next_free [OF asm])
  have seven: "7 \<le> next_free s" using assms by (simp add: args_allocated_def)
  have phys: "cells ?s' default_physics_config = cells s default_physics_config"
    using seven by (intro frame) (simp add: default_physics_config_def addr_physics_def)
  have rdef: "\<And>m rd. default_render_config m = Some rd \<Longrightarrow> cells ?s' rd = cells s rd"
    using seven by (intro frame) (auto dest: default_render_config_range)
  have tdef: "\<And>t td. default_terrain_config t = Some td \<Longrightarrow> cells ?s' td = cells s td"
    using seven by (intro frame) (auto dest: default_terrain_config_range)
  have caller: "cells ?s' (arg_render_config a) = cells s (arg_render_config a)"
    "cells ?s' (arg_terrain_config a) = cells s (arg_terrain_config a)"
    "cells ?s' (arg_physics_config a) = cells s (arg_physics_config a)"
    using assms by (auto intro!: frame simp: args_allocated_def)
  have first: "fst (init w s a) = Inr e \<longrightarrow>
         next_free s \<le> render_config e \<and> next_free s \<le> terrain_config e
         \<and> next_free s \<le> physics_config e
         \<and> (\<exists>rd td. default_render_config (arg_render_mode a) = Some rd
               \<and> default_terrain_config (arg_terrain a) = Some td
               \<and> (\<forall>k. cells ?s' (render_config e) k =
                     (case cells s (arg_render_config a) k of
                        Some v \<Rightarrow> Some v | None \<Rightarrow> cells s rd k))
               \<and> (\<forall>k. cells ?s' (terrain_config e) k =
                     (case cells s (arg_terrain_config a) k of
                        Some v \<Rightarrow> Some v | None \<Rightarrow> cells s td k))
               \<and> (\<forall>k. cells ?s' (physics_config e) k =
                     (case cells s (arg_physics_config a) k of
                        Some v \<Rightarrow> Some v | None \<Rightarrow> cells s default_physics_config k)))"
  proof
    assume ok: "fst (init w s a) = Inr e"
    from assemble_merge [OF assms init_configs [OF ok]]
    show "next_free s \<le> render_config e \<and> next_free s \<le> terrain_config e
         \<and> next_free s \<le> physics_config e
         \<and> (\<exists>rd td. default_render_config (arg_render_mode a) = Some rd
               \<and> default_terrain_config (arg_terrain a) = Some td
               \<and> (\<forall>k. cells ?s' (render_config e) k =
                     (case cells s (arg_render_config a) k of
                        Some v \<Rightarrow> Some v | None \<Rightarrow> cells s rd k))
               \<and> (\<forall>k. cells ?s' (terrain_config e) k =
                     (case cells s (arg_terrain_config a) k of
                        Some v \<Rightarrow> Some v | None \<Rightarrow> cells s td k))
               \<and> (\<forall>k. cells ?s' (physics_config e) k =
                     (case cells s (arg_physics_config a) k of
                        Some v \<Rightarrow> Some v | None \<Rightarrow> cells s default_physics_config k)))"
      by (auto simp: map_add_def split: option.splits)
  qed
  have second: "args_allocated s a2 \<and> fst (init w2 ?s' a2) = Inr e2 \<longrightarrow>
         (\<exists>rd td. default_render_config (arg_render_mode a2) = Some rd
               \<and> default_terrain_config (arg_terrain a2) = Some td
               \<and> cells (snd (init w2 ?s' a2)) (render_config e2)
                   = cells s rd ++ cells s (arg_render_config a2)
               \<and> cells (snd (init w2 ?s' a2)) (terrain_config e2)
                   = cells s td ++ cells s (arg_terrain_config a2)
               \<and> cells (snd (init w2 ?s' a2)) (physics_config e2)
                   = cells s default_physics_config ++ cells s (arg_physics_config a2))"
  proof
    assume h: "args_allocated s a2 \<and> fst (init w2 ?s' a2) = Inr e2"
    then have al: "args_allocated ?s' a2" using nf by (auto intro: allocated_later)
    from h have c2: "cells ?s' (arg_render_config a2) = cells s (arg_render_config a2)"
      "cells ?s' (arg_terrain_config a2) = cells s (arg_terrain_config a2)"
      "cells ?s' (arg_physics_config a2) = cells s (arg_physics_config a2)"
      by (auto intro!: frame simp: args_allocated_def)
    from h have ok2: "fst (init w2 ?s' a2) = Inr e2" by simp
    from assemble_merge [OF al init_configs [OF ok2]] obtain rd td where
      m: "default_render_config (arg_render_mode a2) = Some rd"
      "default_terrain_config (arg_terrain a2) = Some td"
      "cells (snd (init w2 ?s' a2)) (render_config e2)
         = cells ?s' rd ++ cells ?s' (arg_render_config a2)"
      "cells (snd (init w2 ?s' a2)) (terrain_config e2)
         = cells ?s' td ++ cells ?s' (arg_terrain_config a2)"
      "cells (snd (init w2 ?s' a2)) (physics_config e2)
         = cells ?s' default_physics_config ++ cells ?s' (arg_physics_config a2)"
      by auto
    show "\<exists>rd td. default_render_config (arg_render_mode a2) = Some rd
               \<and> default_terrain_config (arg_terrain a2) = Some td
               \<and> cells (snd (init w2 ?s' a2)) (render_config e2)
                   = cells s rd ++ cells s (arg_render_config a2)
               \<and> cells (snd (init w2 ?s' a2)) (terrain_config e2)
                   = cells s td ++ cells s (arg_terrain_config a2)
               \<and> cells (snd (init w2 ?s' a2)) (physics_config e2)
                   = cells s default_physics_config ++ cells s (arg_physics_config a2)"
      using m rdef [OF m(1)] tdef [OF m(2)] phys c2
      by (intro exI [of _ rd] exI [of _ td]) simp
  qed
  from frame nf phys rdef tdef caller first second show ?thesis by blast
qed


lemma demo_init2: "\<exists>e2. fst (init demo_world demo_store1 demo_args2) = Inr e2"
  by (simp add: init_def assemble_configs_def demo_store_def demo_store1_def demo_args_def
      demo_args2_def module_store_def default_render_config_def default_terrain_config_def
      default_physics_config_def addr_defs deepcopy_def dict_update_def defaults_defs
      init_rest_def wire_def load_init_pose_def metadata_init_pose_def Let_def
      build_terrain_def spawn_def sbind_def lookup_def demo_world_def render_interval_def
      set_compliant_Tarsus_def resolve_actuators_def find_actuator_def actuator_name_def
      set_init_pose_def upt_rec)

lemma demo_allocated2: "args_allocated demo_store demo_args2"
  by (simp add: args_allocated_def demo_store_def demo_args_def demo_args2_def)

text \<open>
  In the small world the first caller lowers the frame rate to 30. The default stays
  at 60, and a second instance built without overrides gets 60.
\<close>

theorem defaults_never_mutated_witness:
  "args_allocated demo_store demo_args \<and> args_allocated demo_store demo_args2
   \<and> fst (init demo_world demo_store demo_args) = Inr demo_env
   \<and> cells demo_store addr_saved ''fps'' = Some (Num 60)
   \<and> cells (snd (init demo_world demo_store demo_args)) addr_saved ''fps'' = Some (Num 60)
   \<and> cells (snd (init demo_world demo_store demo_args)) (arg_render_config demo_args) ''fps''
       = Some (Num 30)
   \<and> cells (snd (init demo_world demo_store demo_args)) (render_config demo_env) ''fps''
       = Some (Num 30)
   \<and> cells (snd (init demo_world demo_store demo_args)) (render_config demo_env) ''playspeed''
       = Some (Num 1)
   \<and> (\<exists>e2. fst (init demo_world (snd (init demo_world demo_store demo_args)) demo_args2)
               = Inr e2
         \<and> cells (snd (init demo_world (snd (init demo_world demo_store demo_args)) demo_args2))
               (render_config e2) ''fps'' = Some (Num 60))"
proof -
  have ok: "fst (init demo_world demo_store demo_args) = Inr demo_env"
    by (simp add: demo_init)
  have s1: "snd (init demo_world demo_store demo_args) = demo_store1"
    by (simp add: demo_init)
  from demo_init2 obtain e2 where
    ok2: "fst (init demo_world (snd (init demo_world demo_store demo_args)) demo_args2) = Inr e2"
    unfolding s1 by blast
  note th = defaults_never_mutated [OF demo_allocated, where w = demo_world and e = demo_env
      and ?a2.0 = demo_args2 and ?w2.0 = demo_world and ?e2.0 = e2]
  have mode: "default_render_config ''saved'' = Some addr_saved"
    "arg_render_mode demo_args = ''saved''" "arg_render_mode demo_args2 = ''saved''"
    by (simp_all add: default_render_config_def demo_args_def demo_args2_def)
  have d0: "cells demo_store addr_saved ''fps'' = Some (Num 60)"
    "cells demo_store addr_saved ''playspeed'' = Some (Num 1)"
    "cells demo_store (arg_render_config demo_args) ''fps'' = Some (Num 30)"
    "cells demo_store (arg_render_config demo_args) ''playspeed'' = None"
    "cells demo_store (arg_render_config demo_args2) ''fps'' = None"
    by (simp_all add: demo_store_def module_store_def addr_defs saved_defaults_def
        demo_args_def demo_args2_def)
  from th mode(1) have "cells (snd (init demo_world demo_store demo_args)) addr_saved
                          = cells demo_store addr_saved"
    by blast
  then have a: "cells (snd (init demo_world demo_store demo_args)) addr_saved ''fps''
                  = Some (Num 60)"
    using d0(1) by simp
  from th have "cells (snd (init demo_world demo_store demo_args)) (arg_render_config demo_args)
                  = cells demo_store (arg_render_config demo_args)"
    by blast
  then have b: "cells (snd (init demo_world demo_store demo_args))
                  (arg_render_config demo_args) ''fps'' = Some (Num 30)"
    using d0(3) by simp
  from th ok obtain rd where rd: "default_render_config (arg_render_mode demo_args) = Some rd"
    "\<forall>k. cells (snd (init demo_world demo_store demo_args)) (render_config demo_env) k =
           (case cells demo_store (arg_render_config demo_args) k of
              Some v \<Rightarrow> Some v | None \<Rightarrow> cells demo_store rd k)"
    by blast
  from rd(1) mode have rds: "rd = addr_saved" by simp
  have c: "cells (snd (init demo_world demo_store demo_args)) (render_config demo_env) ''fps''
             = Some (Num 30)"
    using spec [OF rd(2), of "''fps''"] d0(3) by simp
  have c': "cells (snd (init demo_world demo_store demo_args)) (render_config demo_env)
              ''playspeed'' = Some (Num 1)"
    using spec [OF rd(2), of "''playspeed''"] d0(2,4) rds by simp
  from th demo_allocated2 ok2 obtain rd2 where rd2:
    "default_render_config (arg_render_mode demo_args2) = Some rd2"
    "cells (snd (init demo_world (snd (init demo_world demo_store demo_args)) demo_args2))
       (render_config e2) = cells demo_store rd2 ++ cells demo_store (arg_render_config demo_args2)"
    by blast
  from rd2(1) mode have "rd2 = addr_saved" by simp
  with rd2(2) have d: "cells (snd (init demo_world (snd (init demo_world demo_store demo_args))
                         demo_args2)) (render_config e2) ''fps'' = Some (Num 60)"
    using d0(1,5) by (simp add: map_add_def)
  from ok2 d have "\<exists>e2. fst (init demo_world (snd (init demo_world demo_store demo_args)) demo_args2)
               = Inr e2
         \<and> cells (snd (init demo_world (snd (init demo_world demo_store demo_args)) demo_args2))
               (render_config e2) ''fps'' = Some (Num 60)"
    by blast
  with demo_allocated demo_allocated2 ok d0(1) a b c c' show ?thesis by blast
qed

end
